theory Spec2Isabelle
  imports Complex_Main "HOL-Library.Sublist"
begin

section \<open>JavaScript values\<close>

text \<open>
  A JavaScript string is a sequence of UTF-16 code units; a code unit is modelled by its
  number. The currency signs of the price parser are single code units
  (\<open>$\<close> = 36, pound = 163, yen = 165, euro = 8364, rupee = 8377).
  \<open>js\<close> turns an ASCII literal into its code units.

  A number is modelled as an exact rational: every number of this program is read from a
  decimal numeral or is a hundredth of an integer. The rounding error of IEEE-754 doubles
  is outside the model, and so are \<open>NaN\<close> and the infinities as values
  (\<open>parseFloat\<close> returns \<open>None\<close> for \<open>NaN\<close>).

  An object is the list of its own enumerable properties in the order in which
  \<open>for (key in obj)\<close> visits them (keys pairwise distinct); an array is the list
  of its elements.
\<close>

type_synonym jsstring = "nat list"

abbreviation js :: "string \<Rightarrow> jsstring" where
  "js s \<equiv> map of_char s"

datatype jsval =
    JUndefined
  | JNull
  | JBool bool
  | JNum rat
  | JStr jsstring
  | JArr "jsval list"
  | JObj "(jsstring \<times> jsval) list"

text \<open>\<open>!!v\<close>: the falsy values are undefined, null, false, 0 and the empty string.\<close>

fun truthy :: "jsval \<Rightarrow> bool" where
  "truthy JUndefined = False"
| "truthy JNull = False"
| "truthy (JBool b) = b"
| "truthy (JNum n) = (n \<noteq> 0)"
| "truthy (JStr s) = (s \<noteq> [])"
| "truthy (JArr xs) = True"
| "truthy (JObj ps) = True"

text \<open>\<open>a || b\<close> on values.\<close>

definition js_or :: "jsval \<Rightarrow> jsval \<Rightarrow> jsval" where
  "js_or a b = (if truthy a then a else b)"

text \<open>\<open>typeof v === 'string'\<close> and \<open>typeof v === 'object'\<close> (which holds of null).\<close>

fun is_string :: "jsval \<Rightarrow> bool" where
  "is_string (JStr s) = True"
| "is_string v = False"

fun typeof_object :: "jsval \<Rightarrow> bool" where
  "typeof_object JNull = True"
| "typeof_object (JArr xs) = True"
| "typeof_object (JObj ps) = True"
| "typeof_object v = False"

section \<open>String builtins used by the price parser\<close>

text \<open>\<open>\d\<close> is \<open>[0-9]\<close>; \<open>\s\<close> (and what \<open>trim\<close> strips) is
  the white space and line terminators of ECMAScript.\<close>

definition isDigit :: "nat \<Rightarrow> bool" where
  "isDigit c = (48 \<le> c \<and> c \<le> 57)"

definition isWhiteSpace :: "nat \<Rightarrow> bool" where
  "isWhiteSpace c =
     ((9 \<le> c \<and> c \<le> 13) \<or> c = 32 \<or> c = 160 \<or> c = 5760 \<or> (8192 \<le> c \<and> c \<le> 8202)
      \<or> c = 8232 \<or> c = 8233 \<or> c = 8239 \<or> c = 8287 \<or> c = 12288 \<or> c = 65279)"

text \<open>The class \<open>[\$...]\<close> of \<open>parsePrice\<close>: dollar, euro, pound, yen, rupee.\<close>

definition isCurrencySymbol :: "nat \<Rightarrow> bool" where
  "isCurrencySymbol c = (c = 36 \<or> c = 8364 \<or> c = 163 \<or> c = 165 \<or> c = 8377)"

text \<open>\<open>s.replace(/[class]/, '')\<close> without the \<open>g\<close> flag removes the first
  code unit of the class only.\<close>

fun remove_first :: "('a \<Rightarrow> bool) \<Rightarrow> 'a list \<Rightarrow> 'a list" where
  "remove_first P [] = []"
| "remove_first P (x # xs) = (if P x then xs else x # remove_first P xs)"

definition trim :: "jsstring \<Rightarrow> jsstring" where
  "trim s = rev (dropWhile isWhiteSpace (rev (dropWhile isWhiteSpace s)))"

text \<open>
  \<open>parseFloat\<close> on a string that has no leading white space, sign, exponent or
  \<open>Infinity\<close> (\<open>parsePrice\<close> passes digits and dots only, see
  \<open>cleanPrice_chars\<close>): the longest prefix \<open>digits [. digits]\<close> or
  \<open>. digits\<close> is read as a decimal numeral, and a string with no such prefix
  gives \<open>NaN\<close>, here \<open>None\<close>.
\<close>

definition digitsToNat :: "jsstring \<Rightarrow> nat" where
  "digitsToNat ds = foldl (\<lambda>a c. 10 * a + (c - 48)) 0 ds"

definition parseFloat :: "jsstring \<Rightarrow> rat option" where
  "parseFloat s =
     (let whole = takeWhile isDigit s;
          rest = dropWhile isDigit s;
          fraction = (case rest of [] \<Rightarrow> [] | c # t \<Rightarrow> if c = 46 then takeWhile isDigit t else [])
      in if whole = [] \<and> fraction = [] then None
         else Some (of_nat (digitsToNat whole) + of_nat (digitsToNat fraction) / 10 ^ length fraction))"

text \<open>\<open>Math.round\<close>: the nearest integer, a half rounded up.\<close>

definition Math_round :: "rat \<Rightarrow> int" where
  "Math_round x = \<lfloor>x + 1 / 2\<rfloor>"

section \<open>utils/priceParser.js\<close>

text \<open>The two \<open>replace\<close> chains of \<open>parsePrice\<close>: one currency sign, every comma,
  every run of white space, \<open>trim\<close>, then everything but digits and dots.\<close>

definition cleanPrice :: "jsstring \<Rightarrow> jsstring" where
  "cleanPrice priceString =
     (let cleaned = trim (filter (\<lambda>c. \<not> isWhiteSpace c)
                      (filter (\<lambda>c. c \<noteq> 44) (remove_first isCurrencySymbol priceString)))
      in filter (\<lambda>c. isDigit c \<or> c = 46) cleaned)"

text \<open>\<open>parsePrice\<close>: \<open>None\<close> is \<open>null\<close>.\<close>

definition parsePrice :: "jsval \<Rightarrow> rat option" where
  "parsePrice priceString =
     (case priceString of
        JStr s \<Rightarrow>
          if s = [] then None
          else (case parseFloat (cleanPrice s) of
                  None \<Rightarrow> None
                | Some price \<Rightarrow>
                    if price \<le> 0 then None
                    else Some (of_int (Math_round (price * 100)) / 100))
      | _ \<Rightarrow> None)"

definition extractCurrency :: "jsval \<Rightarrow> jsstring" where
  "extractCurrency priceString =
     (case priceString of
        JStr s \<Rightarrow>
          if s = [] then js ''USD''
          else if 36 \<in> set s then js ''USD''
          else if 8364 \<in> set s then js ''EUR''
          else if 163 \<in> set s then js ''GBP''
          else if 165 \<in> set s then js ''JPY''
          else if 8377 \<in> set s then js ''INR''
          else js ''USD''
      | _ \<Rightarrow> js ''USD'')"

text \<open>
  The argument of \<open>normalizePrice\<close>: a field the caller left out is
  \<open>JUndefined\<close>. The result: \<open>price\<close> is a number; \<open>originalPrice\<close> and
  \<open>salePrice\<close> are a number or \<open>null\<close> (\<open>None\<close>); \<open>currency\<close> is
  whatever truthy value the caller passed, or the inferred code.
\<close>

record candidate =
  cand_price :: jsval
  cand_salePrice :: jsval
  cand_listPrice :: jsval
  cand_currency :: jsval

record normalized =
  price :: rat
  originalPrice :: "rat option"
  salePrice :: "rat option"
  currency :: jsval
  isOnSale :: bool

text \<open>
  \<open>normalizePrice\<close>; \<open>None\<close> as argument is a falsy \<open>priceData\<close>, as result
  \<open>null\<close>. \<open>finalPrice\<close> is the local constant
  \<open>salePrice || price || listPrice\<close>. \<open>!parsedPrice\<close> holds of \<open>null\<close> and of 0.
  \<open>salePrice !== price\<close> is an inequality of values here: where it is evaluated on
  a record that is returned, \<open>salePrice\<close> is a string.
\<close>

definition finalPrice :: "candidate \<Rightarrow> jsval" where
  "finalPrice c = js_or (js_or (cand_salePrice c) (cand_price c)) (cand_listPrice c)"

definition normalizePrice :: "candidate option \<Rightarrow> normalized option" where
  "normalizePrice priceData =
     (case priceData of
        None \<Rightarrow> None
      | Some c \<Rightarrow>
          (case parsePrice (finalPrice c) of
             None \<Rightarrow> None
           | Some parsedPrice \<Rightarrow>
               if parsedPrice = 0 then None
               else Some \<lparr> price = parsedPrice,
                           originalPrice = (if truthy (cand_listPrice c)
                                            then parsePrice (cand_listPrice c)
                                            else Some parsedPrice),
                           salePrice = (if truthy (cand_salePrice c)
                                        then parsePrice (cand_salePrice c)
                                        else None),
                           currency = js_or (cand_currency c) (JStr (extractCurrency (finalPrice c))),
                           isOnSale = (truthy (cand_salePrice c)
                                       \<and> cand_salePrice c \<noteq> cand_price c) \<rparr>))"

section \<open>Number and value to string\<close>

text \<open>
  \<open>Number.prototype.toString\<close> on the exact decimal: fixed notation from
  \<open>10^-6\<close> up to (not including) \<open>10^21\<close>, otherwise one digit before the dot
  and an exponent. A double prints at most 17 significant digits, hence at most 23
  fraction digits in fixed notation; the model cuts a longer expansion there.
\<close>

fun natDigits :: "nat \<Rightarrow> jsstring" where
  "natDigits n = (if n < 10 then [48 + n] else natDigits (n div 10) @ [48 + n mod 10])"

declare natDigits.simps [simp del]

fun fracDigits :: "nat \<Rightarrow> rat \<Rightarrow> jsstring" where
  "fracDigits 0 f = []"
| "fracDigits (Suc n) f =
     (if f = 0 then []
      else (let d = nat \<lfloor>f * 10\<rfloor> in (48 + d) # fracDigits n (f * 10 - of_nat d)))"

definition fixedNotation :: "rat \<Rightarrow> jsstring" where
  "fixedNotation r =
     natDigits (nat \<lfloor>r\<rfloor>)
     @ (let f = r - of_int \<lfloor>r\<rfloor> in if f = 0 then [] else 46 # fracDigits 23 f)"

text \<open>For \<open>0 < r < 1\<close>: the least \<open>e\<close> with \<open>1 \<le> r * 10^e\<close>, looked for up
  to the bound given (no positive double is below \<open>10^-324\<close>).\<close>

fun smallExponent :: "nat \<Rightarrow> rat \<Rightarrow> nat" where
  "smallExponent 0 r = 0"
| "smallExponent (Suc bound) r = (if 1 \<le> r then 0 else Suc (smallExponent bound (r * 10)))"

definition positiveToString :: "rat \<Rightarrow> jsstring" where
  "positiveToString r =
     (if 10 ^ 21 \<le> r then
        (let e = length (natDigits (nat \<lfloor>r\<rfloor>)) - 1
         in fixedNotation (r / 10 ^ e) @ js ''e+'' @ natDigits e)
      else if r < 1 / 10 ^ 6 then
        (let e = smallExponent 324 r
         in fixedNotation (r * 10 ^ e) @ js ''e-'' @ natDigits e)
      else fixedNotation r)"

definition numToString :: "rat \<Rightarrow> jsstring" where
  "numToString r =
     (if r = 0 then js ''0''
      else if r < 0 then 45 # positiveToString (- r)
      else positiveToString r)"


text \<open>A call that throws, with the error's message, or returns.\<close>

datatype 'a outcome = Threw jsstring | Returned 'a

text \<open>
  \<open>v.toString()\<close>. An object read from JSON that has an own property
  \<open>toString\<close> holds a value there, not a function: the call is a TypeError.
  An array joins its elements with commas, null and undefined elements as empty strings.
\<close>

fun toStringJS :: "jsval \<Rightarrow> jsstring outcome"
  and joinJS :: "jsval list \<Rightarrow> jsstring outcome" where
  "toStringJS JUndefined = Threw (js ''TypeError'')"
| "toStringJS JNull = Threw (js ''TypeError'')"
| "toStringJS (JBool b) = Returned (if b then js ''true'' else js ''false'')"
| "toStringJS (JNum n) = Returned (numToString n)"
| "toStringJS (JStr s) = Returned s"
| "toStringJS (JArr xs) = joinJS xs"
| "toStringJS (JObj ps) =
     (if map_of ps (js ''toString'') = None then Returned (js ''[object Object]'')
      else Threw (js ''TypeError''))"
| "joinJS [] = Returned []"
| "joinJS (x # xs) =
     (case (if x = JUndefined \<or> x = JNull then Returned [] else toStringJS x) of
        Threw e \<Rightarrow> Threw e
      | Returned s \<Rightarrow>
          if xs = [] then Returned s
          else (case joinJS xs of
                  Threw e \<Rightarrow> Threw e
                | Returned t \<Rightarrow> Returned (s @ 44 # t)))"

section \<open>utils/validator.js\<close>

text \<open>\<open>isValidPriceRange\<close>; the argument is a number by its type here, so the
  \<open>typeof\<close> and \<open>isNaN\<close> tests are passed.\<close>

definition isValidPriceRange :: "rat \<Rightarrow> rat \<Rightarrow> rat \<Rightarrow> bool" where
  "isValidPriceRange p minPrice maxPrice = (minPrice \<le> p \<and> p \<le> maxPrice)"

record validation =
  isValid :: bool
  errors :: "jsstring list"

text \<open>\<open>validatePriceData\<close>; \<open>!priceData.price\<close> holds of the number 0 only, and
  the defaults 0.01 and 1000000 of \<open>isValidPriceRange\<close> are passed explicitly.\<close>

definition validatePriceData :: "normalized option \<Rightarrow> validation" where
  "validatePriceData priceData =
     (case priceData of
        None \<Rightarrow> \<lparr> isValid = False, errors = [js ''Price data is null or undefined''] \<rparr>
      | Some d \<Rightarrow>
          (let r1 = (if price d = 0
                     then \<lparr> isValid = False, errors = [js ''Price is missing or invalid''] \<rparr>
                     else if isValidPriceRange (price d) (1 / 100) 1000000
                     then \<lparr> isValid = True, errors = [] \<rparr>
                     else \<lparr> isValid = False,
                            errors = [js ''Price '' @ numToString (price d)
                                      @ js '' is outside valid range''] \<rparr>)
           in if truthy (currency d) then r1
              else r1 \<lparr> errors := errors r1 @ [js ''Currency is missing (using default: USD)''] \<rparr>))"

text \<open>
  A regular expression that is a literal of ASCII letters and spaces, with the
  \<open>i\<close> flag: \<open>test\<close> looks for a place where the canonical forms agree.
  ECMAScript's canonical form of a code unit is its upper case, and a code unit from 128
  on never has a canonical form below 128; \<open>canonicalize\<close> is that map on ASCII and
  the identity elsewhere, which gives the same matches against an ASCII pattern.
\<close>

definition canonicalize :: "nat \<Rightarrow> nat" where
  "canonicalize c = (if 97 \<le> c \<and> c \<le> 122 then c - 32 else c)"

definition regex_test_i :: "jsstring \<Rightarrow> jsstring \<Rightarrow> bool" where
  "regex_test_i pattern s = sublist (map canonicalize pattern) (map canonicalize s)"

definition outOfStockIndicators :: "jsstring list" where
  "outOfStockIndicators =
     [js ''out of stock'', js ''currently unavailable'', js ''temporarily out of stock'',
      js ''unavailable'', js ''sold out'']"

definition isOutOfStock :: "jsval \<Rightarrow> bool" where
  "isOutOfStock html =
     (case html of
        JStr s \<Rightarrow> s \<noteq> [] \<and> list_ex (\<lambda>pattern. regex_test_i pattern s) outOfStockIndicators
      | _ \<Rightarrow> False)"

section \<open>scraper.js\<close>

text \<open>\<open>s.includes(part)\<close> is \<open>str_includes s part\<close>.\<close>

text \<open>
  \<open>toLowerCase\<close>: the ASCII capitals, and the two code units beyond ASCII whose
  lower case has an ASCII letter, the Kelvin sign (8490, to k) and the capital I with dot
  (304, to i and a combining dot, 775). Every other code unit is kept: its lower case in
  JavaScript is again beyond ASCII, and \<open>detectVendor\<close> looks for ASCII substrings.
\<close>

definition toLowerCase :: "jsstring \<Rightarrow> jsstring" where
  "toLowerCase s =
     concat (map (\<lambda>c. if 65 \<le> c \<and> c \<le> 90 then [c + 32]
                       else if c = 8490 then [107]
                       else if c = 304 then [105, 775]
                       else [c]) s)"

definition str_includes :: "jsstring \<Rightarrow> jsstring \<Rightarrow> bool" where
  "str_includes s part = sublist part s"

definition detectVendor :: "jsstring \<Rightarrow> jsstring" where
  "detectVendor url =
     (let lowerUrl = toLowerCase url in
      if str_includes lowerUrl (js ''amazon.com'') \<or> str_includes lowerUrl (js ''amazon.'') then js ''amazon''
      else if str_includes lowerUrl (js ''walmart.com'') \<or> str_includes lowerUrl (js ''walmart.'')
      then js ''walmart''
      else if str_includes lowerUrl (js ''target.com'') then js ''target''
      else if str_includes lowerUrl (js ''bestbuy.com'') then js ''bestbuy''
      else js ''generic'')"

text \<open>
  The three extractor objects a \<open>PriceScraper\<close> holds, each by its \<open>extract\<close>
  method, which returns a normalized record or \<open>null\<close>, or throws.
\<close>

record scraper =
  amazonExtractor :: "jsstring \<Rightarrow> normalized option outcome"
  walmartExtractor :: "jsstring \<Rightarrow> normalized option outcome"
  genericExtractor :: "jsstring \<Rightarrow> normalized option outcome"

datatype strategy = Amazon | Walmart | Generic

text \<open>
  The \<open>try { switch (vendor) ... } catch\<close> block of \<open>getPrice\<close>: the value of
  \<open>priceData\<close> after it, and the extractors it called, in the order of the calls.
  An extractor that throws leaves the block with \<open>priceData\<close> as it was.
\<close>

definition extractByVendor ::
  "scraper \<Rightarrow> jsstring \<Rightarrow> jsstring \<Rightarrow> normalized option \<times> strategy list" where
  "extractByVendor S vendor html =
     (if vendor = js ''amazon'' then
        (case amazonExtractor S html of
           Threw e \<Rightarrow> (None, [Amazon])
         | Returned priceData \<Rightarrow> (priceData, [Amazon]))
      else if vendor = js ''walmart'' then
        (case walmartExtractor S html of
           Threw e \<Rightarrow> (None, [Walmart])
         | Returned priceData \<Rightarrow> (priceData, [Walmart]))
      else
        (case genericExtractor S html of
           Threw e \<Rightarrow> (None, [Generic])
         | Returned (Some priceData) \<Rightarrow> (Some priceData, [Generic])
         | Returned None \<Rightarrow>
             (case amazonExtractor S html of
                Threw e \<Rightarrow> (None, [Generic, Amazon])
              | Returned (Some priceData) \<Rightarrow> (Some priceData, [Generic, Amazon])
              | Returned None \<Rightarrow>
                  (case walmartExtractor S html of
                     Threw e \<Rightarrow> (None, [Generic, Amazon, Walmart])
                   | Returned priceData \<Rightarrow> (priceData, [Generic, Amazon, Walmart])))))"

text \<open>
  The record \<open>getPrice\<close> resolves to. \<open>Unavailable\<close> is a record with
  \<open>available: false\<close>, an \<open>error\<close> and, after a failed validation,
  \<open>rawPrice\<close>; \<open>Available\<close> is one with \<open>available: true\<close>, the fields of
  the normalized record, \<open>scrapedAt\<close> and \<open>warnings\<close> (\<open>None\<close>: undefined).
\<close>

datatype result =
    Unavailable jsstring jsstring jsstring "normalized option"
  | Available jsstring jsstring normalized jsstring "jsstring list option"

fun available :: "result \<Rightarrow> bool" where
  "available (Unavailable url vendor err rawPrice) = False"
| "available (Available url vendor priceData scrapedAt warnings) = True"

fun error :: "result \<Rightarrow> jsstring option" where
  "error (Unavailable url vendor err rawPrice) = Some err"
| "error (Available url vendor priceData scrapedAt warnings) = None"

record options =
  allowOutOfStock :: jsval

text \<open>\<open>errors.join(', ')\<close>.\<close>

fun joinStrings :: "jsstring \<Rightarrow> jsstring list \<Rightarrow> jsstring" where
  "joinStrings sep [] = []"
| "joinStrings sep [x] = x"
| "joinStrings sep (x # y # ys) = x @ sep @ joinStrings sep (y # ys)"

text \<open>
  \<open>getPrice\<close>, from the value \<open>html\<close> that \<open>fetchHtml\<close> resolved to (a string)
  and the time stamp \<open>now\<close> of \<open>new Date().toISOString()\<close>. The second component
  lists the extractors that were called.
\<close>

definition getPrice ::
  "scraper \<Rightarrow> jsval \<Rightarrow> jsstring \<Rightarrow> options \<Rightarrow> jsstring \<Rightarrow> result outcome \<times> strategy list" where
  "getPrice S url html opts now =
     (case url of
        JStr u \<Rightarrow>
          if u = [] then (Threw (js ''Valid URL is required''), [])
          else
            (let vendor = detectVendor u in
             if html = [] then (Threw (js ''Failed to fetch HTML content''), [])
             else if isOutOfStock (JStr html) \<and> \<not> truthy (allowOutOfStock opts) then
               (Returned (Unavailable u vendor (js ''Product appears to be out of stock'') None), [])
             else
               (case extractByVendor S vendor html of
                  (None, called) \<Rightarrow>
                    (Returned (Unavailable u vendor (js ''Could not extract price from page'') None),
                     called)
                | (Some priceData, called) \<Rightarrow>
                    (let v = validatePriceData (Some priceData) in
                     if \<not> isValid v then
                       (Returned (Unavailable u vendor
                          (js ''Price validation failed: '' @ joinStrings (js '', '') (errors v))
                          (Some priceData)), called)
                     else
                       (Returned (Available u vendor priceData now
                          (if errors v \<noteq> [] then Some (errors v) else None)), called))))
      | _ \<Rightarrow> (Threw (js ''Valid URL is required''), []))"

section \<open>The document as the extractors see it\<close>

text \<open>
  The extractors read the page through three libraries that are not part of the
  repository: cheerio (\<open>cheerio.load(html)\<close> and the queries on it), the regular
  expression engine (\<open>text.match(pattern)\<close>) and \<open>JSON.parse\<close>. They are
  parameters of the model, collected in \<open>lib\<close>; every theorem about the extractors
  holds for all of them.

  A selector and a pattern of the source are named by a constructor:

  \<^item> \<open>SelJsonLd\<close> is \<open>script[type="application/ld+json"]\<close>,
    \<open>SelScript\<close> is \<open>script\<close>;
  \<^item> \<open>SelIdPriceToPay\<close>, \<open>SelClassPriceToPay\<close>, \<open>SelApexPriceToPay\<close> are
    \<open>[id="priceToPay"]\<close>, \<open>[class*="priceToPay"]\<close>,
    \<open>.a-price.a-text-price.a-size-medium.apexPriceToPay\<close>;
  \<^item> \<open>SelDataAColorPrice\<close>, \<open>SelAPrice\<close>, \<open>SelAPriceWhole\<close> are
    \<open>[data-a-color="price"]\<close>, \<open>.a-price\<close>, \<open>.a-price-whole\<close>;
  \<^item> \<open>SelClassAPriceWhole\<close>, \<open>SelClassAPriceFraction\<close> are
    \<open>[class*="a-price-whole"]\<close>, \<open>[class*="a-price-fraction"]\<close>;
  \<^item> \<open>SelTestidProductPrice\<close>, \<open>SelClassPriceDisplay\<close>,
    \<open>SelClassPriceDisplayLower\<close>, \<open>SelProdPriceHero\<close>, \<open>SelItempropPrice\<close> are
    \<open>[data-testid="product-price"]\<close>, \<open>[class*="PriceDisplay"]\<close>,
    \<open>[class*="price-display"]\<close>, \<open>.prod-PriceHero .price\<close>,
    \<open>[itemprop="price"]\<close>;
  \<^item> \<open>SelMetaPriceAmount\<close>, \<open>SelMetaPriceCurrency\<close> are
    \<open>meta[property="product:price:amount"]\<close>,
    \<open>meta[property="product:price:currency"]\<close>;
  \<^item> \<open>SelPrice\<close>, \<open>SelProductPrice\<close>, \<open>SelClassPrice\<close>, \<open>SelIdPrice\<close>,
    \<open>SelDataPrice\<close>, \<open>SelCurrentPrice\<close>, \<open>SelSalePrice\<close> are \<open>.price\<close>,
    \<open>.product-price\<close>, \<open>[class*="price"]\<close>, \<open>[id*="price"]\<close>,
    \<open>[data-price]\<close>, \<open>.current-price\<close>, \<open>.sale-price\<close>;
  \<^item> \<open>PatBuyingPrice\<close>, \<open>PatPriceToPay\<close>, \<open>PatOfferPrice\<close> are the three
    patterns of \<open>AmazonExtractor.extractFromJsonData\<close> (a key \<open>"buyingPrice":\<close>,
    \<open>"priceToPay":\<close>, \<open>"offerPrice":\<close> and the braces after it);
  \<^item> \<open>PatReduxState\<close>, \<open>PatProduct\<close>, \<open>PatPricing\<close> are the three patterns of
    \<open>WalmartExtractor.extractFromJsonState\<close>
    (\<open>window.__WML_REDUX_INITIAL_STATE__ = {...};\<close>, \<open>"product": {... "price": ...}\<close>,
    \<open>"pricing": {...}\<close>).
\<close>

datatype selector =
    SelJsonLd | SelScript
  | SelIdPriceToPay | SelClassPriceToPay | SelApexPriceToPay
  | SelDataAColorPrice | SelAPrice | SelAPriceWhole
  | SelClassAPriceWhole | SelClassAPriceFraction
  | SelTestidProductPrice | SelClassPriceDisplay | SelClassPriceDisplayLower
  | SelProdPriceHero | SelItempropPrice
  | SelMetaPriceAmount | SelMetaPriceCurrency
  | SelPrice | SelProductPrice | SelClassPrice | SelIdPrice | SelDataPrice
  | SelCurrentPrice | SelSalePrice

datatype pattern =
    PatBuyingPrice | PatPriceToPay | PatOfferPrice
  | PatReduxState | PatProduct | PatPricing

text \<open>
  An element of a cheerio selection, by what the extractors read of it: \<open>.text()\<close>,
  \<open>.html()\<close> (\<open>None\<close>: null), its attributes, \<open>.find('.a-offscreen').text()\<close>,
  \<open>.siblings('[data-a-strike="true"]')\<close> and \<open>.siblings('[class*="was-price"]')\<close>.
\<close>

datatype elem =
  Elem (el_text: jsstring) (el_html: "jsstring option") (el_attrs: "(jsstring \<times> jsstring) list")
       (el_offscreen: jsstring) (el_strike: "elem list") (el_wasPrice: "elem list")

record lib =
  cheerio :: "jsstring \<Rightarrow> selector \<Rightarrow> elem list"
  match1 :: "pattern \<Rightarrow> jsstring \<Rightarrow> jsstring option"
  JSON_parse :: "jsstring \<Rightarrow> jsval option"

text \<open>
  \<open>cheerio L html sel\<close> is the selection \<open>$(sel)\<close> of \<open>$ = cheerio.load(html)\<close> in
  document order; \<open>match1 L p text\<close> is \<open>None\<close> when \<open>text.match(p)\<close> is null and
  the first group of the match otherwise; \<open>JSON_parse L text\<close> is \<open>None\<close> when
  \<open>JSON.parse\<close> throws.

  \<open>attr\<close> is \<open>.attr(name)\<close> of one element, \<open>attr_first\<close> of a selection (its
  first element; undefined on an empty selection).
\<close>

definition attr :: "elem \<Rightarrow> jsstring \<Rightarrow> jsval" where
  "attr e name = (case map_of (el_attrs e) name of None \<Rightarrow> JUndefined | Some s \<Rightarrow> JStr s)"

fun attr_first :: "elem list \<Rightarrow> jsstring \<Rightarrow> jsval" where
  "attr_first [] name = JUndefined"
| "attr_first (e # es) name = attr e name"

text \<open>
  \<open>v.name\<close> for a value that is neither null nor undefined (reading a property of
  those throws, which is written out where the source can meet it) and for the names this
  program reads, none of which is an index, \<open>length\<close> or a method: only an object
  has such a property. \<open>opt_prop\<close> is \<open>v?.name\<close>.
\<close>

fun js_prop :: "jsval \<Rightarrow> jsstring \<Rightarrow> jsval" where
  "js_prop (JObj ps) name = (case map_of ps name of None \<Rightarrow> JUndefined | Some v \<Rightarrow> v)"
| "js_prop v name = JUndefined"

definition nullish :: "jsval \<Rightarrow> bool" where
  "nullish v = (v = JNull \<or> v = JUndefined)"

definition opt_prop :: "jsval \<Rightarrow> jsstring \<Rightarrow> jsval" where
  "opt_prop v name = (if nullish v then JUndefined else js_prop v name)"

text \<open>The values \<open>obj[key]\<close> that \<open>for (const key in obj)\<close> visits, in its order.\<close>

fun children :: "jsval \<Rightarrow> jsval list" where
  "children (JObj ps) = map snd ps"
| "children (JArr xs) = xs"
| "children v = []"

lemma size_children: "c \<in> set (children v) \<Longrightarrow> size c < size v"
proof (cases v)
  case (JArr xs)
  assume "c \<in> set (children v)"
  with JArr have "c \<in> set xs" by simp
  then have "size c \<le> size_list size xs" by (rule size_list_estimation') simp
  with JArr show ?thesis by simp
next
  case (JObj ps)
  assume "c \<in> set (children v)"
  with JObj obtain k where "(k, c) \<in> set ps" by auto
  then have "size_prod (\<lambda>x. 0) size (k, c) \<le> size_list (size_prod (\<lambda>x. 0) size) ps"
    by (rule size_list_estimation') simp
  with JObj show ?thesis by simp
qed simp_all


section \<open>extractors/generic.js\<close>

text \<open>
  The loop \<open>for (key in obj) { if (typeof obj[key] === 'object') { const result = f(obj[key]);
  if (result) return result; } }\<close> over the visited values, for an \<open>f\<close> that cannot
  throw; \<open>None\<close> when the loop ends.
\<close>

fun first_some :: "('a \<Rightarrow> 'b option) \<Rightarrow> 'a list \<Rightarrow> 'b option" where
  "first_some f [] = None"
| "first_some f (x # xs) = (case f x of Some r \<Rightarrow> Some r | None \<Rightarrow> first_some f xs)"

lemma first_some_cong [fundef_cong]:
  "xs = ys \<Longrightarrow> (\<And>x. x \<in> set ys \<Longrightarrow> f x = g x) \<Longrightarrow> first_some f xs = first_some g ys"
  by (induction ys arbitrary: xs) (auto split: option.splits)

text \<open>The first \<open>if\<close> of \<open>findPriceInJsonLd\<close>: the object it returns, if the
  condition holds.\<close>

definition jsonLdPriceHere :: "jsval \<Rightarrow> candidate option" where
  "jsonLdPriceHere obj =
     (let offers = js_prop obj (js ''offers'') in
      if js_prop obj (js ''price'') \<noteq> JUndefined \<or> opt_prop offers (js ''price'') \<noteq> JUndefined
      then Some \<lparr> cand_price = js_or (js_prop obj (js ''price'')) (opt_prop offers (js ''price'')),
                  cand_salePrice = JUndefined,
                  cand_listPrice = JUndefined,
                  cand_currency = js_or (js_prop obj (js ''priceCurrency''))
                                        (opt_prop offers (js ''priceCurrency'')) \<rparr>
      else None)"

function findPriceInJsonLd :: "jsval \<Rightarrow> candidate option" where
  "findPriceInJsonLd obj =
     (if \<not> truthy obj \<or> \<not> typeof_object obj then None
      else (case jsonLdPriceHere obj of
              Some found \<Rightarrow> Some found
            | None \<Rightarrow>
                first_some (\<lambda>child. if typeof_object child then findPriceInJsonLd child else None)
                  (children obj)))"
  by pat_completeness auto
termination
  by (relation "measure size") (auto simp: size_children)

declare findPriceInJsonLd.simps [simp del]

text \<open>
  The loops of the extractors that can leave their function with \<open>return\<close>:
  \<open>None\<close> when the loop ends without a \<open>return\<close>, \<open>Some r\<close> when it
  returns \<open>r\<close> (which may be \<open>null\<close>).
\<close>

fun Generic_jsonLdScripts :: "lib \<Rightarrow> elem list \<Rightarrow> normalized option option" where
  "Generic_jsonLdScripts L [] = None"
| "Generic_jsonLdScripts L (script # rest) =
     (case el_html script of
        None \<Rightarrow> Generic_jsonLdScripts L rest
      | Some content \<Rightarrow>
          if content = [] then Generic_jsonLdScripts L rest
          else (case JSON_parse L content of
                  None \<Rightarrow> Generic_jsonLdScripts L rest
                | Some data \<Rightarrow>
                    (case findPriceInJsonLd data of
                       Some found \<Rightarrow> Some (normalizePrice (Some found))
                     | None \<Rightarrow> Generic_jsonLdScripts L rest)))"

definition Generic_extractFromJsonLd :: "lib \<Rightarrow> jsstring \<Rightarrow> normalized option" where
  "Generic_extractFromJsonLd L html =
     (case Generic_jsonLdScripts L (cheerio L html SelJsonLd) of
        Some r \<Rightarrow> r
      | None \<Rightarrow> None)"

definition Generic_extractFromOpenGraph :: "lib \<Rightarrow> jsstring \<Rightarrow> normalized option" where
  "Generic_extractFromOpenGraph L html =
     (let ogPrice = attr_first (cheerio L html SelMetaPriceAmount) (js ''content'');
          ogCurrency = attr_first (cheerio L html SelMetaPriceCurrency) (js ''content'')
      in if truthy ogPrice
         then normalizePrice (Some \<lparr> cand_price = ogPrice,
                                     cand_salePrice = JUndefined,
                                     cand_listPrice = JUndefined,
                                     cand_currency = js_or ogCurrency (JStr (js ''USD'')) \<rparr>)
         else None)"

definition Generic_selectors :: "selector list" where
  "Generic_selectors =
     [SelPrice, SelProductPrice, SelClassPrice, SelIdPrice, SelDataPrice, SelCurrentPrice,
      SelSalePrice]"

fun Generic_commonSelectors :: "lib \<Rightarrow> jsstring \<Rightarrow> selector list \<Rightarrow> normalized option option" where
  "Generic_commonSelectors L html [] = None"
| "Generic_commonSelectors L html (sel # rest) =
     (case cheerio L html sel of
        [] \<Rightarrow> Generic_commonSelectors L html rest
      | element # others \<Rightarrow>
          (let priceText = js_or (JStr (trim (el_text element))) (attr element (js ''data-price''))
           in if truthy priceText then
                (case parsePrice priceText of
                   None \<Rightarrow> Generic_commonSelectors L html rest
                 | Some p \<Rightarrow>
                     if p = 0 then Generic_commonSelectors L html rest
                     else Some (normalizePrice (Some \<lparr> cand_price = JStr (numToString p),
                                                       cand_salePrice = JUndefined,
                                                       cand_listPrice = JUndefined,
                                                       cand_currency = JUndefined \<rparr>)))
              else Generic_commonSelectors L html rest))"

definition Generic_extractFromCommonSelectors :: "lib \<Rightarrow> jsstring \<Rightarrow> normalized option" where
  "Generic_extractFromCommonSelectors L html =
     (case Generic_commonSelectors L html Generic_selectors of
        Some r \<Rightarrow> r
      | None \<Rightarrow> None)"

text \<open>\<open>GenericExtractor.extract\<close>: the first method with a truthy result.\<close>

definition Generic_extract :: "lib \<Rightarrow> jsstring \<Rightarrow> normalized option" where
  "Generic_extract L html =
     (if html = [] then None
      else (case Generic_extractFromJsonLd L html of
              Some jsonLdPrice \<Rightarrow> Some jsonLdPrice
            | None \<Rightarrow>
                (case Generic_extractFromOpenGraph L html of
                   Some ogPrice \<Rightarrow> Some ogPrice
                 | None \<Rightarrow>
                     (case Generic_extractFromCommonSelectors L html of
                        Some cssPrice \<Rightarrow> Some cssPrice
                      | None \<Rightarrow> None))))"

section \<open>extractors/walmart.js\<close>

text \<open>The same loop for an \<open>f\<close> that may throw: the exception leaves the loop.\<close>

fun first_found :: "('a \<Rightarrow> 'b option outcome) \<Rightarrow> 'a list \<Rightarrow> 'b option outcome" where
  "first_found f [] = Returned None"
| "first_found f (x # xs) =
     (case f x of
        Threw e \<Rightarrow> Threw e
      | Returned (Some r) \<Rightarrow> Returned (Some r)
      | Returned None \<Rightarrow> first_found f xs)"

lemma first_found_cong [fundef_cong]:
  "xs = ys \<Longrightarrow> (\<And>x. x \<in> set ys \<Longrightarrow> f x = g x) \<Longrightarrow> first_found f xs = first_found g ys"
  by (induction ys arbitrary: xs) (auto split: outcome.splits option.splits)

text \<open>\<open>v ? v.toString() : null\<close>.\<close>

definition toStringOrNull :: "jsval \<Rightarrow> jsval outcome" where
  "toStringOrNull v =
     (if truthy v
      then (case toStringJS v of Threw e \<Rightarrow> Threw e | Returned s \<Rightarrow> Returned (JStr s))
      else Returned JNull)"

text \<open>
  The two blocks of \<open>findPriceInState\<close> that look at the node itself, for an
  \<open>obj\<close> that passed the first test: \<open>None\<close> when the block falls through,
  \<open>Some\<close> of what the function returns or throws otherwise. \<open>obj.price.current\<close>
  is a TypeError when \<open>obj.price\<close> is null.
\<close>

definition statePriceHere :: "jsval \<Rightarrow> normalized option outcome option" where
  "statePriceHere obj =
     (let objPrice = js_prop obj (js ''price'') in
      if objPrice = JUndefined then None
      else if objPrice = JNull then Some (Threw (js ''TypeError''))
      else
        (let p = (if typeof_object objPrice
                  then js_or (opt_prop (js_prop objPrice (js ''current'')) (js ''price''))
                             (js_prop objPrice (js ''price''))
                  else objPrice);
             cur = js_or (js_prop obj (js ''currency'')) (JStr (js ''USD''))
         in if truthy p then
              (let listPrice = js_or (js_or (js_prop objPrice (js ''was''))
                                            (js_prop obj (js ''wasPrice'')))
                                     (js_prop obj (js ''listPrice''))
               in Some (case toStringJS p of
                          Threw e \<Rightarrow> Threw e
                        | Returned priceString \<Rightarrow>
                            (case toStringOrNull listPrice of
                               Threw e \<Rightarrow> Threw e
                             | Returned listPriceString \<Rightarrow>
                                 Returned (normalizePrice
                                   (Some \<lparr> cand_price = JStr priceString,
                                            cand_salePrice = JUndefined,
                                            cand_listPrice = listPriceString,
                                            cand_currency = cur \<rparr>)))))
            else None))"

definition statePricingHere :: "jsval \<Rightarrow> normalized option outcome option" where
  "statePricingHere obj =
     (let pricing = js_prop obj (js ''pricing'') in
      if truthy pricing then
        (let p = js_or (js_prop pricing (js ''price'')) (js_prop pricing (js ''currentPrice''));
             listPrice = js_or (js_prop pricing (js ''wasPrice''))
                               (js_prop pricing (js ''rollbackPrice''))
         in if truthy p then
              Some (case toStringJS p of
                      Threw e \<Rightarrow> Threw e
                    | Returned priceString \<Rightarrow>
                        (case toStringOrNull listPrice of
                           Threw e \<Rightarrow> Threw e
                         | Returned listPriceString \<Rightarrow>
                             Returned (normalizePrice
                               (Some \<lparr> cand_price = JStr priceString,
                                        cand_salePrice = JUndefined,
                                        cand_listPrice = listPriceString,
                                        cand_currency = JUndefined \<rparr>))))
            else None)
      else None)"

function findPriceInState :: "jsval \<Rightarrow> normalized option outcome" where
  "findPriceInState obj =
     (if \<not> truthy obj \<or> \<not> typeof_object obj then Returned None
      else (case statePriceHere obj of
              Some res \<Rightarrow> res
            | None \<Rightarrow>
                (case statePricingHere obj of
                   Some res \<Rightarrow> res
                 | None \<Rightarrow>
                     first_found
                       (\<lambda>child. if typeof_object child then findPriceInState child
                                else Returned None)
                       (children obj))))"
  by pat_completeness auto
termination
  by (relation "measure size") (auto simp: size_children)

declare findPriceInState.simps [simp del]

definition Walmart_scriptPatterns :: "pattern list" where
  "Walmart_scriptPatterns = [PatReduxState, PatProduct, PatPricing]"

text \<open>The loop over the patterns on one text: a match that does not parse, or in
  which the search throws or finds nothing, goes on with the next pattern.\<close>

fun Walmart_statePatterns :: "lib \<Rightarrow> jsstring \<Rightarrow> pattern list \<Rightarrow> normalized option" where
  "Walmart_statePatterns L text [] = None"
| "Walmart_statePatterns L text (p # rest) =
     (case match1 L p text of
        None \<Rightarrow> Walmart_statePatterns L text rest
      | Some captured \<Rightarrow>
          (case JSON_parse L captured of
             None \<Rightarrow> Walmart_statePatterns L text rest
           | Some stateData \<Rightarrow>
               (case findPriceInState stateData of
                  Returned (Some found) \<Rightarrow> Some found
                | Returned None \<Rightarrow> Walmart_statePatterns L text rest
                | Threw e \<Rightarrow> Walmart_statePatterns L text rest)))"

fun Walmart_stateScripts :: "lib \<Rightarrow> elem list \<Rightarrow> normalized option" where
  "Walmart_stateScripts L [] = None"
| "Walmart_stateScripts L (script # rest) =
     (case el_html script of
        None \<Rightarrow> Walmart_stateScripts L rest
      | Some scriptContent \<Rightarrow>
          if scriptContent = [] then Walmart_stateScripts L rest
          else (case Walmart_statePatterns L scriptContent Walmart_scriptPatterns of
                  Some found \<Rightarrow> Some found
                | None \<Rightarrow> Walmart_stateScripts L rest))"

definition Walmart_extractFromJsonState :: "lib \<Rightarrow> jsstring \<Rightarrow> normalized option" where
  "Walmart_extractFromJsonState L html =
     (case Walmart_statePatterns L html Walmart_scriptPatterns of
        Some found \<Rightarrow> Some found
      | None \<Rightarrow> Walmart_stateScripts L (cheerio L html SelScript))"

definition Walmart_selectors :: "selector list" where
  "Walmart_selectors =
     [SelTestidProductPrice, SelClassPriceDisplay, SelClassPriceDisplayLower, SelProdPriceHero,
      SelItempropPrice]"

text \<open>\<open>price ? price.toString() : null\<close> for a result of \<open>parsePrice\<close>.\<close>

definition priceStringOrNull :: "rat option \<Rightarrow> jsval" where
  "priceStringOrNull p =
     (case p of None \<Rightarrow> JNull | Some q \<Rightarrow> if q = 0 then JNull else JStr (numToString q))"

text \<open>In \<open>extractFromPriceDisplay\<close>, \<open>wasPriceElement\<close> is the first disjunct
  always: a cheerio selection is an object, hence truthy, also when it is empty.\<close>

fun Walmart_priceDisplay :: "lib \<Rightarrow> jsstring \<Rightarrow> selector list \<Rightarrow> normalized option option" where
  "Walmart_priceDisplay L html [] = None"
| "Walmart_priceDisplay L html (sel # rest) =
     (case cheerio L html sel of
        [] \<Rightarrow> Walmart_priceDisplay L html rest
      | element # others \<Rightarrow>
          (let priceText = js_or (JStr (trim (el_text element))) (attr element (js ''content''))
           in if truthy priceText then
                (case parsePrice priceText of
                   None \<Rightarrow> Walmart_priceDisplay L html rest
                 | Some p \<Rightarrow>
                     if p = 0 then Walmart_priceDisplay L html rest
                     else
                       (let wasPrice = (case el_wasPrice element of
                                          [] \<Rightarrow> None
                                        | wasPriceElement # others2 \<Rightarrow>
                                            parsePrice (JStr (el_text wasPriceElement)))
                        in Some (normalizePrice
                                   (Some \<lparr> cand_price = JStr (numToString p),
                                            cand_salePrice = JUndefined,
                                            cand_listPrice = priceStringOrNull wasPrice,
                                            cand_currency = JUndefined \<rparr>))))
              else Walmart_priceDisplay L html rest))"

definition Walmart_extractFromPriceDisplay :: "lib \<Rightarrow> jsstring \<Rightarrow> normalized option" where
  "Walmart_extractFromPriceDisplay L html =
     (case Walmart_priceDisplay L html Walmart_selectors of
        Some r \<Rightarrow> r
      | None \<Rightarrow> None)"

definition Walmart_extractFromMetaTags :: "lib \<Rightarrow> jsstring \<Rightarrow> normalized option" where
  "Walmart_extractFromMetaTags L html =
     (let ogPrice = attr_first (cheerio L html SelMetaPriceAmount) (js ''content'') in
      if truthy ogPrice then
        (let cur = js_or (attr_first (cheerio L html SelMetaPriceCurrency) (js ''content''))
                         (JStr (js ''USD''))
         in normalizePrice (Some \<lparr> cand_price = ogPrice,
                                    cand_salePrice = JUndefined,
                                    cand_listPrice = JUndefined,
                                    cand_currency = cur \<rparr>))
      else
        (let itemPrice = attr_first (cheerio L html SelItempropPrice) (js ''content'') in
         if truthy itemPrice then
           normalizePrice (Some \<lparr> cand_price = itemPrice,
                                   cand_salePrice = JUndefined,
                                   cand_listPrice = JUndefined,
                                   cand_currency = JUndefined \<rparr>)
         else None))"

definition Walmart_extract :: "lib \<Rightarrow> jsstring \<Rightarrow> normalized option" where
  "Walmart_extract L html =
     (if html = [] then None
      else (case Walmart_extractFromJsonState L html of
              Some jsonPrice \<Rightarrow> Some jsonPrice
            | None \<Rightarrow>
                (case Walmart_extractFromPriceDisplay L html of
                   Some displayPrice \<Rightarrow> Some displayPrice
                 | None \<Rightarrow>
                     (case Walmart_extractFromMetaTags L html of
                        Some metaPrice \<Rightarrow> Some metaPrice
                      | None \<Rightarrow> None))))"

section \<open>extractors/amazon.js\<close>

definition Amazon_jsonPatterns :: "pattern list" where
  "Amazon_jsonPatterns = [PatBuyingPrice, PatPriceToPay, PatOfferPrice]"

text \<open>
  The first loop of \<open>extractFromJsonData\<close>. A match that \<open>JSON.parse\<close> rejects,
  and a parsed value that is null (reading \<open>priceData.amount\<close> throws), go on with
  the next pattern; a truthy \<open>amount\<close> returns what \<open>normalizePrice\<close> gives.
\<close>

fun Amazon_jsonData :: "lib \<Rightarrow> jsstring \<Rightarrow> pattern list \<Rightarrow> normalized option option" where
  "Amazon_jsonData L html [] = None"
| "Amazon_jsonData L html (p # rest) =
     (case match1 L p html of
        None \<Rightarrow> Amazon_jsonData L html rest
      | Some captured \<Rightarrow>
          (case JSON_parse L captured of
             None \<Rightarrow> Amazon_jsonData L html rest
           | Some priceData \<Rightarrow>
               if nullish priceData then Amazon_jsonData L html rest
               else
                 (let amount = js_or (js_or (js_prop priceData (js ''amount''))
                                            (js_prop priceData (js ''price'')))
                                     (js_prop priceData (js ''value''));
                      cur = js_or (js_prop priceData (js ''currency'')) (JStr (js ''USD''))
                  in if truthy amount
                     then Some (normalizePrice (Some \<lparr> cand_price = amount,
                                                       cand_salePrice = JUndefined,
                                                       cand_listPrice = JUndefined,
                                                       cand_currency = cur \<rparr>))
                     else Amazon_jsonData L html rest)))"

text \<open>\<open>data.find(d => d['@type'] === 'Product')\<close>: a null element before the first
  product throws.\<close>

fun findProduct :: "jsval list \<Rightarrow> jsval outcome" where
  "findProduct [] = Returned JUndefined"
| "findProduct (d # ds) =
     (if nullish d then Threw (js ''TypeError'')
      else if js_prop d (js ''@type'') = JStr (js ''Product'') then Returned d
      else findProduct ds)"

text \<open>The \<open>product\<close> of one JSON-LD block when the condition of the \<open>if\<close>
  holds, \<open>JUndefined\<close> when it does not.\<close>

definition jsonLdProduct :: "jsval \<Rightarrow> jsval outcome" where
  "jsonLdProduct data =
     (if nullish data then Threw (js ''TypeError'')
      else if js_prop data (js ''@type'') = JStr (js ''Product'') then Returned data
      else (case data of JArr ds \<Rightarrow> findProduct ds | _ \<Rightarrow> Returned JUndefined))"

text \<open>\<open>Array.isArray(product.offers) ? product.offers[0] : product.offers\<close>.\<close>

definition firstOffer :: "jsval \<Rightarrow> jsval" where
  "firstOffer productOffers =
     (case productOffers of
        JArr xs \<Rightarrow> (case xs of [] \<Rightarrow> JUndefined | x # rest \<Rightarrow> x)
      | _ \<Rightarrow> productOffers)"

fun Amazon_jsonLdScripts :: "lib \<Rightarrow> elem list \<Rightarrow> normalized option option" where
  "Amazon_jsonLdScripts L [] = None"
| "Amazon_jsonLdScripts L (script # rest) =
     (case el_html script of
        None \<Rightarrow> Amazon_jsonLdScripts L rest
      | Some content \<Rightarrow>
          if content = [] then Amazon_jsonLdScripts L rest
          else (case JSON_parse L content of
                  None \<Rightarrow> Amazon_jsonLdScripts L rest
                | Some data \<Rightarrow>
                    (case jsonLdProduct data of
                       Threw e \<Rightarrow> Amazon_jsonLdScripts L rest
                     | Returned product \<Rightarrow>
                         if truthy product \<and> truthy (js_prop product (js ''offers'')) then
                           (let offers = firstOffer (js_prop product (js ''offers'')) in
                            if nullish offers then Amazon_jsonLdScripts L rest
                            else if truthy (js_prop offers (js ''price'')) then
                              Some (normalizePrice
                                      (Some \<lparr> cand_price = js_prop offers (js ''price''),
                                               cand_salePrice = JUndefined,
                                               cand_listPrice = JUndefined,
                                               cand_currency =
                                                 js_or (js_prop offers (js ''priceCurrency''))
                                                       (JStr (js ''USD'')) \<rparr>))
                            else Amazon_jsonLdScripts L rest)
                         else Amazon_jsonLdScripts L rest)))"

definition Amazon_extractFromJsonData :: "lib \<Rightarrow> jsstring \<Rightarrow> normalized option" where
  "Amazon_extractFromJsonData L html =
     (case Amazon_jsonData L html Amazon_jsonPatterns of
        Some r \<Rightarrow> r
      | None \<Rightarrow>
          (case Amazon_jsonLdScripts L (cheerio L html SelJsonLd) of
             Some r \<Rightarrow> r
           | None \<Rightarrow> None))"

text \<open>\<open>element.find('.a-offscreen').text() || element.text()\<close>.\<close>

definition offscreenOrText :: "elem \<Rightarrow> jsstring" where
  "offscreenOrText element =
     (if el_offscreen element \<noteq> [] then el_offscreen element else el_text element)"

definition Amazon_priceToPaySelectors :: "selector list" where
  "Amazon_priceToPaySelectors = [SelIdPriceToPay, SelClassPriceToPay, SelApexPriceToPay]"

fun Amazon_priceToPay :: "lib \<Rightarrow> jsstring \<Rightarrow> selector list \<Rightarrow> normalized option option" where
  "Amazon_priceToPay L html [] = None"
| "Amazon_priceToPay L html (sel # rest) =
     (case cheerio L html sel of
        [] \<Rightarrow> Amazon_priceToPay L html rest
      | element # others \<Rightarrow>
          (case parsePrice (JStr (offscreenOrText element)) of
             None \<Rightarrow> Amazon_priceToPay L html rest
           | Some p \<Rightarrow>
               if p = 0 then Amazon_priceToPay L html rest
               else Some (normalizePrice (Some \<lparr> cand_price = JStr (numToString p),
                                                 cand_salePrice = JUndefined,
                                                 cand_listPrice = JUndefined,
                                                 cand_currency = JUndefined \<rparr>))))"

definition Amazon_extractFromPriceToPay :: "lib \<Rightarrow> jsstring \<Rightarrow> normalized option" where
  "Amazon_extractFromPriceToPay L html =
     (case Amazon_priceToPay L html Amazon_priceToPaySelectors of
        Some r \<Rightarrow> r
      | None \<Rightarrow> None)"

definition Amazon_offerSelectors :: "selector list" where
  "Amazon_offerSelectors = [SelDataAColorPrice, SelAPrice, SelAPriceWhole]"

text \<open>The inner loop of \<open>extractFromOffers\<close>, over the elements of one selection,
  and the outer one, over the selectors.\<close>

fun Amazon_offerElements :: "elem list \<Rightarrow> normalized option option" where
  "Amazon_offerElements [] = None"
| "Amazon_offerElements (element # rest) =
     (case parsePrice (JStr (offscreenOrText element)) of
        None \<Rightarrow> Amazon_offerElements rest
      | Some p \<Rightarrow>
          if p = 0 then Amazon_offerElements rest
          else
            (let listPrice = (case el_strike element of
                                [] \<Rightarrow> None
                              | listPriceElement # others \<Rightarrow>
                                  parsePrice (JStr (offscreenOrText listPriceElement)))
             in Some (normalizePrice (Some \<lparr> cand_price = JStr (numToString p),
                                               cand_salePrice = JUndefined,
                                               cand_listPrice = priceStringOrNull listPrice,
                                               cand_currency = JUndefined \<rparr>))))"

fun Amazon_offers :: "lib \<Rightarrow> jsstring \<Rightarrow> selector list \<Rightarrow> normalized option option" where
  "Amazon_offers L html [] = None"
| "Amazon_offers L html (sel # rest) =
     (case Amazon_offerElements (cheerio L html sel) of
        Some r \<Rightarrow> Some r
      | None \<Rightarrow> Amazon_offers L html rest)"

definition Amazon_extractFromOffers :: "lib \<Rightarrow> jsstring \<Rightarrow> normalized option" where
  "Amazon_extractFromOffers L html =
     (case Amazon_offers L html Amazon_offerSelectors of
        Some r \<Rightarrow> r
      | None \<Rightarrow> None)"

definition Amazon_extractFromCorePrice :: "lib \<Rightarrow> jsstring \<Rightarrow> normalized option" where
  "Amazon_extractFromCorePrice L html =
     (case cheerio L html SelClassAPriceWhole of
        [] \<Rightarrow> None
      | corePrice # others \<Rightarrow>
          (let whole = filter isDigit (el_text corePrice);
               fraction = (case cheerio L html SelClassAPriceFraction of
                             [] \<Rightarrow> js ''00''
                           | coreFraction # others2 \<Rightarrow> filter isDigit (el_text coreFraction))
           in if whole \<noteq> [] then
                (case parsePrice (JStr (whole @ js ''.'' @ fraction)) of
                   None \<Rightarrow> None
                 | Some p \<Rightarrow>
                     if p = 0 then None
                     else normalizePrice (Some \<lparr> cand_price = JStr (numToString p),
                                                   cand_salePrice = JUndefined,
                                                   cand_listPrice = JUndefined,
                                                   cand_currency = JUndefined \<rparr>))
              else None))"

definition Amazon_extract :: "lib \<Rightarrow> jsstring \<Rightarrow> normalized option" where
  "Amazon_extract L html =
     (if html = [] then None
      else (case Amazon_extractFromJsonData L html of
              Some jsonPrice \<Rightarrow> Some jsonPrice
            | None \<Rightarrow>
                (case Amazon_extractFromPriceToPay L html of
                   Some priceToPay \<Rightarrow> Some priceToPay
                 | None \<Rightarrow>
                     (case Amazon_extractFromOffers L html of
                        Some offerPrice \<Rightarrow> Some offerPrice
                      | None \<Rightarrow>
                          (case Amazon_extractFromCorePrice L html of
                             Some corePrice \<Rightarrow> Some corePrice
                           | None \<Rightarrow> None)))))"

text \<open>The scraper that the constructor \<open>PriceScraper\<close> builds: its three extractors
  are the ones above, none of which throws.\<close>

definition PriceScraper :: "lib \<Rightarrow> scraper" where
  "PriceScraper L =
     \<lparr> amazonExtractor = (\<lambda>html. Returned (Amazon_extract L html)),
       walmartExtractor = (\<lambda>html. Returned (Walmart_extract L html)),
       genericExtractor = (\<lambda>html. Returned (Generic_extract L html)) \<rparr>"

section \<open>What a page has markers of\<close>

text \<open>
  The claims speak of a page that contains a phrase whatever the case of its letters, and
  of pages that have the price markers of one vendor only. \<open>lowerAscii\<close> is the lower
  case of an ASCII letter. A page has no Amazon marker when none of the patterns and
  selectors of \<open>AmazonExtractor\<close> finds anything in it, and no generic marker when
  none of the selectors of \<open>GenericExtractor\<close> does.
\<close>

definition lowerAscii :: "nat \<Rightarrow> nat" where
  "lowerAscii c = (if 65 \<le> c \<and> c \<le> 90 then c + 32 else c)"

definition noAmazonMarkers :: "lib \<Rightarrow> jsstring \<Rightarrow> bool" where
  "noAmazonMarkers L html =
     ((\<forall>p \<in> set Amazon_jsonPatterns. match1 L p html = None)
      \<and> (\<forall>sel \<in> set ([SelJsonLd] @ Amazon_priceToPaySelectors @ Amazon_offerSelectors
                         @ [SelClassAPriceWhole]).
            cheerio L html sel = []))"

definition noGenericMarkers :: "lib \<Rightarrow> jsstring \<Rightarrow> bool" where
  "noGenericMarkers L html =
     (\<forall>sel \<in> set ([SelJsonLd, SelMetaPriceAmount] @ Generic_selectors). cheerio L html sel = [])"

section \<open>Example pages\<close>

text \<open>
  Three pages for the examples, each with the answers the libraries give on it.

  \<open>walmartPage\<close> has one Walmart price element,
  \<open><span data-testid=product-price>$12.99</span>\<close>, and nothing else.
\<close>

definition walmartPage :: jsstring where
  "walmartPage = js ''<span data-testid=product-price>$12.99</span>''"

definition walmartPageLib :: lib where
  "walmartPageLib =
     \<lparr> cheerio = (\<lambda>html sel.
         if html = walmartPage \<and> sel = SelTestidProductPrice
         then [Elem (js ''$12.99'') (Some (js ''$12.99''))
                 [(js ''data-testid'', js ''product-price'')] [] [] []]
         else []),
       match1 = (\<lambda>p t. None),
       JSON_parse = (\<lambda>t. None) \<rparr>"

text \<open>
  \<open>amazonJsonPage\<close> has one script, whose text holds the block
  \<open>"priceToPay": {"amount": "19.99"}\<close> (\<open>quoted\<close> puts a string between double
  quotes, code unit 34), and nothing else.
\<close>

definition quoted :: "jsstring \<Rightarrow> jsstring" where
  "quoted s = 34 # s @ [34]"

definition amazonJsonBlock :: jsstring where
  "amazonJsonBlock = js ''{'' @ quoted (js ''amount'') @ js '': '' @ quoted (js ''19.99'') @ js ''}''"

definition amazonJsonScript :: jsstring where
  "amazonJsonScript =
     js ''var data = {'' @ quoted (js ''priceToPay'') @ js '': '' @ amazonJsonBlock @ js ''};''"

definition amazonJsonPage :: jsstring where
  "amazonJsonPage = js ''<script>'' @ amazonJsonScript @ js ''</script>''"

definition amazonJsonPageLib :: lib where
  "amazonJsonPageLib =
     \<lparr> cheerio = (\<lambda>html sel.
         if html = amazonJsonPage \<and> sel = SelScript
         then [Elem amazonJsonScript (Some amazonJsonScript) [] [] [] []]
         else []),
       match1 = (\<lambda>p t.
         if p = PatPriceToPay \<and> (t = amazonJsonPage \<or> t = amazonJsonScript)
         then Some amazonJsonBlock else None),
       JSON_parse = (\<lambda>t.
         if t = amazonJsonBlock then Some (JObj [(js ''amount'', JStr (js ''19.99''))])
         else None) \<rparr>"

text \<open>
  \<open>amazonOfferPage\<close> has an Amazon price element of class \<open>a-price\<close> with the
  off-screen text "$29.99", and beside it a struck-through one (\<open>data-a-strike=true\<close>)
  with the off-screen text "$39.99". Both are of a class that contains "price".
\<close>

definition amazonOfferPage :: jsstring where
  "amazonOfferPage =
     js ''<span class=a-price><span class=a-offscreen>$29.99</span><span>$29.99</span></span>''
     @ js ''<span class=a-price data-a-strike=true><span class=a-offscreen>$39.99</span><span>$39.99</span></span>''"

definition struckElem :: elem where
  "struckElem =
     Elem (js ''$39.99$39.99'')
       (Some (js ''<span class=a-offscreen>$39.99</span><span>$39.99</span>''))
       [(js ''class'', js ''a-price''), (js ''data-a-strike'', js ''true'')]
       (js ''$39.99'') [] []"

definition offerElem :: elem where
  "offerElem =
     Elem (js ''$29.99$29.99'')
       (Some (js ''<span class=a-offscreen>$29.99</span><span>$29.99</span>''))
       [(js ''class'', js ''a-price'')]
       (js ''$29.99'') [struckElem] []"

definition amazonOfferPageLib :: lib where
  "amazonOfferPageLib =
     \<lparr> cheerio = (\<lambda>html sel.
         if html = amazonOfferPage \<and> (sel = SelAPrice \<or> sel = SelClassPrice)
         then [offerElem, struckElem]
         else []),
       match1 = (\<lambda>p t. None),
       JSON_parse = (\<lambda>t. None) \<rparr>"

text \<open>
  \<open>amazonJsonRecord\<close> is the record of the price block of \<open>amazonJsonPage\<close>.
  \<open>eagerScraper\<close> is a scraper whose three extractors find \<open>sampleRecord\<close> on
  every page.
\<close>

definition amazonJsonRecord :: normalized where
  "amazonJsonRecord = \<lparr> price = 1999 / 100, originalPrice = Some (1999 / 100), salePrice = None,
                         currency = JStr (js ''USD''), isOnSale = False \<rparr>"

definition sampleRecord :: normalized where
  "sampleRecord = \<lparr> price = 5, originalPrice = Some 5, salePrice = None,
                     currency = JStr (js ''USD''), isOnSale = False \<rparr>"

definition eagerScraper :: scraper where
  "eagerScraper = \<lparr> amazonExtractor = (\<lambda>html. Returned (Some sampleRecord)),
                     walmartExtractor = (\<lambda>html. Returned (Some sampleRecord)),
                     genericExtractor = (\<lambda>html. Returned (Some sampleRecord)) \<rparr>"


section \<open>Properties of the price parser\<close>

lemma floor_rat_numeral_div [simp]:
  "\<lfloor>numeral a / numeral b :: rat\<rfloor> = numeral a div numeral b"
  using floor_divide_of_int_eq [of "numeral a" "numeral b", where ?'a = rat] by simp

lemmas parse_eval =
  parsePrice_def cleanPrice_def parseFloat_def trim_def isDigit_def isWhiteSpace_def
  isCurrencySymbol_def digitsToNat_def Math_round_def

lemmas normalize_eval = normalizePrice_def finalPrice_def js_or_def extractCurrency_def


lemma parsePrice_SomeD:
  assumes "parsePrice v = Some r"
  obtains s x where "v = JStr s" "s \<noteq> []" "parseFloat (cleanPrice s) = Some x" "0 < x"
    "r = of_int (Math_round (x * 100)) / 100"
  using assms by (auto simp: parsePrice_def split: jsval.splits if_splits option.splits)




section \<open>Properties of the normalizer\<close>

lemma parsePrice_nonneg: "parsePrice v = Some r \<Longrightarrow> 0 \<le> r"
proof -
  assume "parsePrice v = Some r"
  then obtain s x where *: "0 < x" "r = of_int (Math_round (x * 100)) / 100"
    by (rule parsePrice_SomeD)
  from * have "0 \<le> x * 100 + 1 / 2" by simp
  then have "0 \<le> Math_round (x * 100)" unfolding Math_round_def by simp
  with * show ?thesis by simp
qed

lemma normalizePrice_SomeD:
  assumes "normalizePrice pd = Some r"
  obtains c p where "pd = Some c" "parsePrice (finalPrice c) = Some p" "p \<noteq> 0"
    "price r = p"
    "originalPrice r = (if truthy (cand_listPrice c) then parsePrice (cand_listPrice c) else Some p)"
    "salePrice r = (if truthy (cand_salePrice c) then parsePrice (cand_salePrice c) else None)"
    "currency r = js_or (cand_currency c) (JStr (extractCurrency (finalPrice c)))"
    "isOnSale r = (truthy (cand_salePrice c) \<and> cand_salePrice c \<noteq> cand_price c)"
  using assms by (auto simp: normalizePrice_def split: option.splits if_splits)

text \<open>What does hold of every record that \<open>normalizePrice\<close> returns.\<close>

lemma normalizePrice_invariant:
  assumes "normalizePrice pd = Some r"
  shows "0 < price r" and "isOnSale r \<Longrightarrow> salePrice r \<noteq> None"
    and "originalPrice r = Some q \<Longrightarrow> 0 \<le> q"
proof -
  from assms obtain c p where *: "pd = Some c" "parsePrice (finalPrice c) = Some p" "p \<noteq> 0"
    "price r = p"
    "originalPrice r = (if truthy (cand_listPrice c) then parsePrice (cand_listPrice c) else Some p)"
    "salePrice r = (if truthy (cand_salePrice c) then parsePrice (cand_salePrice c) else None)"
    "isOnSale r = (truthy (cand_salePrice c) \<and> cand_salePrice c \<noteq> cand_price c)"
    by (rule normalizePrice_SomeD)
  from *(2) have p0: "0 \<le> p" by (rule parsePrice_nonneg)
  with * show "0 < price r" by simp
  show "salePrice r \<noteq> None" if "isOnSale r"
  proof -
    from that * have t: "truthy (cand_salePrice c)" by simp
    then have "finalPrice c = cand_salePrice c" by (simp add: finalPrice_def js_or_def)
    with * t show ?thesis by simp
  qed
  show "0 \<le> q" if "originalPrice r = Some q"
    using that * p0 by (auto split: if_splits dest: parsePrice_nonneg)
qed

text \<open>
  Claim C1, as amended. For the candidate with \<open>price\<close> "39.99" and \<open>salePrice\<close>
  "29.99" and no \<open>listPrice\<close>, \<open>normalizePrice\<close> returns \<open>isOnSale\<close> true,
  \<open>price\<close> 29.99 and \<open>originalPrice\<close> 29.99: without a list price the original
  price is the resolved final price, not the \<open>price\<close> field of the candidate.
\<close>

theorem normalizePrice_sale_without_listPrice:
  "normalizePrice (Some \<lparr> cand_price = JStr (js ''39.99''), cand_salePrice = JStr (js ''29.99''),
                          cand_listPrice = JUndefined, cand_currency = JUndefined \<rparr>)
   = Some \<lparr> price = 2999 / 100, originalPrice = Some (2999 / 100),
             salePrice = Some (2999 / 100), currency = JStr (js ''USD''), isOnSale = True \<rparr>"
  by (simp add: parse_eval normalize_eval)

text \<open>Claim C1 as stated fails: the record returned for that candidate does not have
  \<open>originalPrice\<close> 39.99.\<close>

theorem normalizePrice_sale_originalPrice_counterexample:
  "map_option originalPrice
     (normalizePrice (Some \<lparr> cand_price = JStr (js ''39.99''),
                             cand_salePrice = JStr (js ''29.99''),
                             cand_listPrice = JUndefined,
                             cand_currency = JUndefined \<rparr>))
   \<noteq> Some (Some (3999 / 100))"
  by (simp add: parse_eval normalize_eval)

text \<open>
  Claim C2, at the input where the code leaves it. For the candidate with \<open>price\<close> "10"
  and the unparseable \<open>listPrice\<close> "abc", \<open>normalizePrice\<close> returns a record whose
  \<open>originalPrice\<close> is \<open>null\<close>, not a number that is at least 0: the list price is
  tested for being truthy only, and \<open>parsePrice\<close> of it is stored as it comes. The
  other parts of the invariant hold of every returned record
  (\<open>normalizePrice_invariant\<close>).
\<close>

theorem normalizePrice_unparseable_listPrice:
  "normalizePrice (Some \<lparr> cand_price = JStr (js ''10''), cand_salePrice = JUndefined,
                          cand_listPrice = JStr (js ''abc''), cand_currency = JUndefined \<rparr>)
   = Some \<lparr> price = 10, originalPrice = None, salePrice = None,
             currency = JStr (js ''USD''), isOnSale = False \<rparr>"
  by (simp add: parse_eval normalize_eval)



section \<open>Parsing the rendering of a parsed price\<close>







lemma fracDigits_numeral:
  "fracDigits (numeral k) f =
     (if f = 0 then []
      else (let d = nat \<lfloor>f * 10\<rfloor> in (48 + d) # fracDigits (pred_numeral k) (f * 10 - of_nat d)))"
  by (simp add: numeral_eq_Suc)


















lemma floor_rat_one_div [simp]: "\<lfloor>1 / numeral b :: rat\<rfloor> = 1 div numeral b"
  using floor_divide_of_int_eq [of 1 "numeral b", where ?'a = rat] by simp

lemmas toString_eval =
  numToString_def positiveToString_def fixedNotation_def natDigits.simps Let_def






text \<open>
  \<open>parsePrice\<close> tests the value for being positive before it rounds: "0.001" passes
  the test and rounds to 0, which is returned, and the rendering "0" of that result
  is rejected.
\<close>

lemma parsePrice_rounds_to_zero:
  "parsePrice (JStr (js ''0.001'')) = Some 0
   \<and> numToString 0 = js ''0''
   \<and> parsePrice (JStr (js ''0'')) = None"
  by (simp add: parse_eval toString_eval)

section \<open>Properties of the dispatcher\<close>

lemma canonicalize_lowerAscii: "canonicalize (lowerAscii c) = canonicalize c"
  by (simp add: canonicalize_def lowerAscii_def)

lemma regex_test_i_lower:
  assumes "map lowerAscii html = before @ phrase @ after"
  shows "regex_test_i phrase html"
proof -
  have "map canonicalize html = map canonicalize (map lowerAscii html)"
    by (simp add: canonicalize_lowerAscii)
  also have "\<dots> = map canonicalize before @ map canonicalize phrase @ map canonicalize after"
    by (simp add: assms)
  finally show ?thesis unfolding regex_test_i_def sublist_def by blast
qed

lemma isOutOfStock_phrase:
  assumes "phrase \<in> set outOfStockIndicators" "map lowerAscii html = before @ phrase @ after"
  shows "isOutOfStock (JStr html)"
proof -
  from assms(2) have t: "regex_test_i phrase html" by (rule regex_test_i_lower)
  have "phrase \<noteq> []" using assms(1) by (auto simp: outOfStockIndicators_def)
  with assms(2) have "html \<noteq> []" by auto
  with t assms(1) show ?thesis by (auto simp: isOutOfStock_def list_ex_iff)
qed

lemma isOutOfStock_not_string: "\<not> is_string v \<Longrightarrow> \<not> isOutOfStock v"
  by (cases v) (simp_all add: isOutOfStock_def)

lemma getPrice_gate_closed:
  assumes "u \<noteq> []"
    and "phrase \<in> {js ''out of stock'', js ''currently unavailable'',
                    js ''temporarily out of stock'', js ''unavailable'', js ''sold out''}"
    and "map lowerAscii html = before @ phrase @ after"
    and "\<not> truthy (allowOutOfStock opts)"
  shows "getPrice S (JStr u) html opts now
           = (Returned (Unavailable u (detectVendor u)
                          (js ''Product appears to be out of stock'') None), [])"
proof -
  from assms(2) have "phrase \<in> set outOfStockIndicators" by (simp add: outOfStockIndicators_def)
  then have o: "isOutOfStock (JStr html)" using assms(3) by (rule isOutOfStock_phrase)
  then have "html \<noteq> []" by (auto simp: isOutOfStock_def)
  with assms o show ?thesis by (simp add: getPrice_def)
qed

lemma getPrice_no_candidate:
  assumes "u \<noteq> []" "html \<noteq> []" "\<not> isOutOfStock (JStr html)"
    and "fst (extractByVendor S (detectVendor u) html) = None"
  shows "\<exists>r. fst (getPrice S (JStr u) html opts now) = Returned r \<and> \<not> available r
                 \<and> error r = Some (js ''Could not extract price from page'')
                 \<and> error r \<noteq> Some (js ''Product appears to be out of stock'')"
proof -
  from assms(4) obtain called where "extractByVendor S (detectVendor u) html = (None, called)"
    by (cases "extractByVendor S (detectVendor u) html") auto
  with assms show ?thesis by (simp add: getPrice_def)
qed

text \<open>
  Claim C9. For a valid URL, whenever the fetched HTML contains one of the five phrases
  "out of stock", "currently unavailable", "temporarily out of stock", "unavailable",
  "sold out", whatever the case of its ASCII letters, and \<open>allowOutOfStock\<close> is not
  truthy, \<open>getPrice\<close> returns the record with \<open>available: false\<close> and the error
  "Product appears to be out of stock", for every scraper and with no extractor called.
  When no candidate is found, the error is "Could not extract price from page", a
  different one. \<open>isOutOfStock\<close> is false of every value that is not a string.
\<close>

theorem getPrice_out_of_stock_gate:
  "(\<forall>S u html opts now phrase before after.
      u \<noteq> []
      \<and> phrase \<in> {js ''out of stock'', js ''currently unavailable'',
                    js ''temporarily out of stock'', js ''unavailable'', js ''sold out''}
      \<and> map lowerAscii html = before @ phrase @ after
      \<and> \<not> truthy (allowOutOfStock opts)
      \<longrightarrow> getPrice S (JStr u) html opts now
           = (Returned (Unavailable u (detectVendor u)
                          (js ''Product appears to be out of stock'') None), []))
   \<and> (\<forall>S u html opts now.
        u \<noteq> [] \<and> html \<noteq> [] \<and> \<not> isOutOfStock (JStr html)
        \<and> fst (extractByVendor S (detectVendor u) html) = None
        \<longrightarrow> (\<exists>r. fst (getPrice S (JStr u) html opts now) = Returned r \<and> \<not> available r
                 \<and> error r = Some (js ''Could not extract price from page'')
                 \<and> error r \<noteq> Some (js ''Product appears to be out of stock'')))
   \<and> (\<forall>v. \<not> is_string v \<longrightarrow> \<not> isOutOfStock v)"
  by (intro conjI allI impI; (elim conjE)?)
     (rule getPrice_gate_closed getPrice_no_candidate isOutOfStock_not_string; assumption)+

theorem getPrice_out_of_stock_gate_witness:
  "getPrice eagerScraper (JStr (js ''https://amazon.com/dp/1''))
     (js ''<p>Currently UNAVAILABLE.</p>'') \<lparr> allowOutOfStock = JUndefined \<rparr> (js ''now'')
   = (Returned (Unavailable (js ''https://amazon.com/dp/1'') (js ''amazon'')
                  (js ''Product appears to be out of stock'') None), [])
   \<and> (\<exists>r. fst (getPrice \<lparr> amazonExtractor = (\<lambda>html. Returned None),
                            walmartExtractor = (\<lambda>html. Returned (Some sampleRecord)),
                            genericExtractor = (\<lambda>html. Returned (Some sampleRecord)) \<rparr>
                  (JStr (js ''https://amazon.com/dp/1'')) (js ''<p>nothing</p>'')
                  \<lparr> allowOutOfStock = JUndefined \<rparr> (js ''now'')) = Returned r
          \<and> error r = Some (js ''Could not extract price from page''))
   \<and> \<not> isOutOfStock (JNum 5)"
proof -
  note C = getPrice_out_of_stock_gate
  let ?u = "js ''https://amazon.com/dp/1''"
  have v: "detectVendor ?u = js ''amazon''"
    by (simp add: detectVendor_def toLowerCase_def str_includes_def sublist_Cons_right)
  have h: "map lowerAscii (js ''<p>Currently UNAVAILABLE.</p>'')
           = js ''<p>currently '' @ js ''unavailable'' @ js ''.</p>''"
    by (simp add: lowerAscii_def)
  have 1: "getPrice eagerScraper (JStr ?u)
     (js ''<p>Currently UNAVAILABLE.</p>'') \<lparr> allowOutOfStock = JUndefined \<rparr> (js ''now'')
   = (Returned (Unavailable ?u (detectVendor ?u)
                  (js ''Product appears to be out of stock'') None), [])"
    using C [THEN conjunct1, rule_format, of ?u "js ''unavailable''"
        "js ''<p>Currently UNAVAILABLE.</p>''" "js ''<p>currently ''" "js ''.</p>''"
        "\<lparr> allowOutOfStock = JUndefined \<rparr>" eagerScraper "js ''now''"] h
    by simp
  let ?S = "\<lparr> amazonExtractor = (\<lambda>html. Returned None),
                            walmartExtractor = (\<lambda>html. Returned (Some sampleRecord)),
                            genericExtractor = (\<lambda>html. Returned (Some sampleRecord)) \<rparr>"
  have n: "\<not> isOutOfStock (JStr (js ''<p>nothing</p>''))"
    by (simp add: isOutOfStock_def outOfStockIndicators_def regex_test_i_def canonicalize_def
        sublist_Cons_right)
  have e: "fst (extractByVendor ?S (detectVendor ?u) (js ''<p>nothing</p>'')) = None"
    by (simp only: v) (simp add: extractByVendor_def)
  have 2: "\<exists>r. fst (getPrice ?S (JStr ?u) (js ''<p>nothing</p>'')
                  \<lparr> allowOutOfStock = JUndefined \<rparr> (js ''now'')) = Returned r
          \<and> error r = Some (js ''Could not extract price from page'')"
    using C [THEN conjunct2, THEN conjunct1, rule_format, of ?u "js ''<p>nothing</p>''" ?S] n e
    by auto
  have 3: "\<not> isOutOfStock (JNum 5)"
    by (rule C [THEN conjunct2, THEN conjunct2, rule_format]) simp
  from 1 [unfolded v] 2 3 show ?thesis by (intro conjI)
qed

lemma Amazon_extract_no_markers:
  assumes "noAmazonMarkers L html"
  shows "Amazon_extract L html = None"
  using assms
  by (simp add: noAmazonMarkers_def Amazon_extract_def Amazon_extractFromJsonData_def
      Amazon_extractFromPriceToPay_def Amazon_extractFromOffers_def
      Amazon_extractFromCorePrice_def Amazon_jsonPatterns_def Amazon_priceToPaySelectors_def
      Amazon_offerSelectors_def)

lemma Generic_extract_no_markers:
  assumes "noGenericMarkers L html"
  shows "Generic_extract L html = None"
  using assms
  by (simp add: noGenericMarkers_def Generic_extract_def Generic_extractFromJsonLd_def
      Generic_extractFromOpenGraph_def Generic_extractFromCommonSelectors_def
      Generic_selectors_def)

lemma extractByVendor_amazon:
  "extractByVendor S (js ''amazon'') html
   = ((case amazonExtractor S html of Threw e \<Rightarrow> None | Returned pd \<Rightarrow> pd), [Amazon])"
  by (simp add: extractByVendor_def split: outcome.splits)

lemma extractByVendor_walmart:
  "extractByVendor S (js ''walmart'') html
   = ((case walmartExtractor S html of Threw e \<Rightarrow> None | Returned pd \<Rightarrow> pd), [Walmart])"
  by (simp add: extractByVendor_def split: outcome.splits)

lemma getPrice_unavailable_without_candidate:
  assumes "u \<noteq> []" "html \<noteq> []" "extractByVendor S (detectVendor u) html = (None, called)"
  shows "\<exists>r c. getPrice S (JStr u) html opts now = (Returned r, c) \<and> \<not> available r
               \<and> set c \<subseteq> set called"
  using assms by (auto simp: getPrice_def Let_def)

lemma getPrice_amazon_only_walmart_markers:
  assumes "u \<noteq> []" "html \<noteq> []" "detectVendor u = js ''amazon''" "noAmazonMarkers L html"
  shows "fst (extractByVendor (PriceScraper L) (js ''amazon'') html) = None
         \<and> (\<exists>r called. getPrice (PriceScraper L) (JStr u) html opts now = (Returned r, called)
               \<and> \<not> available r \<and> set called \<subseteq> {Amazon})"
proof -
  from assms(4) have a: "Amazon_extract L html = None" by (rule Amazon_extract_no_markers)
  then have e: "extractByVendor (PriceScraper L) (js ''amazon'') html = (None, [Amazon])"
    by (subst extractByVendor_amazon) (simp add: PriceScraper_def)
  with assms(3) have "extractByVendor (PriceScraper L) (detectVendor u) html = (None, [Amazon])"
    by (simp only:)
  from getPrice_unavailable_without_candidate [OF assms(1,2) this] e show ?thesis
    by (simp only: fst_conv) simp
qed

text \<open>
  Claim C3. For the vendor tag "amazon" the \<open>try\<close> block calls the Amazon extractor
  and no other, and \<open>priceData\<close> is what that one returns (null when it throws); for
  "walmart" likewise with the Walmart extractor. In particular, for a URL of Amazon and a
  page with no Amazon marker (be it full of Walmart markers), no candidate is found and
  \<open>getPrice\<close> returns a record with \<open>available: false\<close>, having called no
  extractor but Amazon's.
\<close>

theorem recognized_vendor_no_fallback:
  "(\<forall>S html. extractByVendor S (js ''amazon'') html
       = ((case amazonExtractor S html of Threw e \<Rightarrow> None | Returned pd \<Rightarrow> pd), [Amazon]))
   \<and> (\<forall>S html. extractByVendor S (js ''walmart'') html
       = ((case walmartExtractor S html of Threw e \<Rightarrow> None | Returned pd \<Rightarrow> pd), [Walmart]))
   \<and> (\<forall>L u html opts now.
         u \<noteq> [] \<and> html \<noteq> [] \<and> detectVendor u = js ''amazon'' \<and> noAmazonMarkers L html
         \<longrightarrow> fst (extractByVendor (PriceScraper L) (js ''amazon'') html) = None
              \<and> (\<exists>r called. getPrice (PriceScraper L) (JStr u) html opts now = (Returned r, called)
                    \<and> \<not> available r \<and> set called \<subseteq> {Amazon}))"
proof (intro conjI)
  show "\<forall>S html. extractByVendor S (js ''amazon'') html
       = ((case amazonExtractor S html of Threw e \<Rightarrow> None | Returned pd \<Rightarrow> pd), [Amazon])"
    by (intro allI) (rule extractByVendor_amazon)
  show "\<forall>S html. extractByVendor S (js ''walmart'') html
       = ((case walmartExtractor S html of Threw e \<Rightarrow> None | Returned pd \<Rightarrow> pd), [Walmart])"
    by (intro allI) (rule extractByVendor_walmart)
  show "\<forall>L u html opts now.
         u \<noteq> [] \<and> html \<noteq> [] \<and> detectVendor u = js ''amazon'' \<and> noAmazonMarkers L html
         \<longrightarrow> fst (extractByVendor (PriceScraper L) (js ''amazon'') html) = None
              \<and> (\<exists>r called. getPrice (PriceScraper L) (JStr u) html opts now = (Returned r, called)
                    \<and> \<not> available r \<and> set called \<subseteq> {Amazon})"
    by (intro allI impI, elim conjE) (rule getPrice_amazon_only_walmart_markers)
qed

lemmas walmartPage_eval = walmartPage_def walmartPageLib_def

lemmas walmart_eval =
  Walmart_extract_def Walmart_extractFromJsonState_def Walmart_extractFromPriceDisplay_def
  Walmart_extractFromMetaTags_def Walmart_scriptPatterns_def Walmart_selectors_def
  priceStringOrNull_def attr_def

theorem recognized_vendor_no_fallback_witness:
  "Walmart_extract walmartPageLib walmartPage
     = Some \<lparr> price = 1299 / 100, originalPrice = Some (1299 / 100), salePrice = None,
               currency = JStr (js ''USD''), isOnSale = False \<rparr>
   \<and> fst (extractByVendor (PriceScraper walmartPageLib) (js ''amazon'') walmartPage) = None
   \<and> (\<exists>r called. getPrice (PriceScraper walmartPageLib) (JStr (js ''https://www.amazon.com/dp/B01''))
                     walmartPage \<lparr> allowOutOfStock = JUndefined \<rparr> (js ''now'')
                   = (Returned r, called)
                 \<and> \<not> available r \<and> set called \<subseteq> {Amazon})"
proof -
  let ?u = "js ''https://www.amazon.com/dp/B01''"
  have w: "Walmart_extract walmartPageLib walmartPage
     = Some \<lparr> price = 1299 / 100, originalPrice = Some (1299 / 100), salePrice = None,
               currency = JStr (js ''USD''), isOnSale = False \<rparr>"
    by (simp add: walmartPage_eval walmart_eval parse_eval normalize_eval toString_eval
        fracDigits_numeral)
  have v: "detectVendor ?u = js ''amazon''"
    by (simp add: detectVendor_def toLowerCase_def str_includes_def sublist_Cons_right)
  have m: "noAmazonMarkers walmartPageLib walmartPage"
    by (simp add: noAmazonMarkers_def walmartPage_eval Amazon_jsonPatterns_def
        Amazon_priceToPaySelectors_def Amazon_offerSelectors_def)
  have u: "?u \<noteq> []" by simp
  have h: "walmartPage \<noteq> []" by (simp add: walmartPage_def)
  from recognized_vendor_no_fallback [THEN conjunct2, THEN conjunct2, rule_format,
      of ?u walmartPage walmartPageLib "\<lparr> allowOutOfStock = JUndefined \<rparr>" "js ''now''"]
    u h v m w
  show ?thesis by (intro conjI) blast+
qed

lemma extractByVendor_other:
  assumes "vendor \<noteq> js ''amazon''" "vendor \<noteq> js ''walmart''"
  shows "\<exists>rest. snd (extractByVendor S vendor html) = Generic # rest"
    and "genericExtractor S html = Returned (Some pd)
         \<Longrightarrow> extractByVendor S vendor html = (Some pd, [Generic])"
    and "genericExtractor S html = Returned None \<Longrightarrow> amazonExtractor S html = Returned (Some pd)
         \<Longrightarrow> extractByVendor S vendor html = (Some pd, [Generic, Amazon])"
    and "genericExtractor S html = Returned None \<Longrightarrow> amazonExtractor S html = Returned None
         \<Longrightarrow> walmartExtractor S html = Returned res
         \<Longrightarrow> extractByVendor S vendor html = (res, [Generic, Amazon, Walmart])"
  using assms by (auto simp: extractByVendor_def split: outcome.splits option.splits)

lemma getPrice_fallback_to_amazon:
  assumes "u \<noteq> []" "detectVendor u \<noteq> js ''amazon''" "detectVendor u \<noteq> js ''walmart''"
    and "\<not> isOutOfStock (JStr html)" "noGenericMarkers L html" "Amazon_extract L html = Some r"
    and "1 / 100 \<le> price r" "price r \<le> 1000000"
  shows "\<exists>warnings. getPrice (PriceScraper L) (JStr u) html opts now
           = (Returned (Available u (detectVendor u) r now warnings), [Generic, Amazon])"
proof -
  from assms(6) have h: "html \<noteq> []" by (auto simp: Amazon_extract_def)
  from assms(5) have g: "genericExtractor (PriceScraper L) html = Returned None"
    by (simp add: PriceScraper_def Generic_extract_no_markers)
  from assms(6) have a: "amazonExtractor (PriceScraper L) html = Returned (Some r)"
    by (simp add: PriceScraper_def)
  from extractByVendor_other(3) [OF assms(2,3) g a]
  have e: "extractByVendor (PriceScraper L) (detectVendor u) html = (Some r, [Generic, Amazon])" .
  from assms(7,8) have v: "isValid (validatePriceData (Some r))"
    by (auto simp: validatePriceData_def isValidPriceRange_def Let_def)
  from assms(1,4) h e v show ?thesis by (simp add: getPrice_def Let_def)
qed

text \<open>
  Claim C4. For every vendor tag other than "amazon" and "walmart" (such as "target",
  "bestbuy", "generic" and tags that \<open>detectVendor\<close> never gives), the \<open>try\<close>
  block calls the Generic extractor first; a record it returns is the result; when it
  returns null, the Amazon extractor is called and then, when that returns null too,
  the Walmart extractor, and the first record found is the result. In particular, for
  such a URL and a page that is not out of stock, has no generic marker and on which the
  Amazon extractor finds a record with a price in the valid range, \<open>getPrice\<close>
  returns that record with \<open>available: true\<close>, having called Generic and then Amazon.
\<close>

theorem other_vendor_fallback_chain:
  "(\<forall>S vendor html.
      vendor \<noteq> js ''amazon'' \<and> vendor \<noteq> js ''walmart''
      \<longrightarrow> (\<exists>rest. snd (extractByVendor S vendor html) = Generic # rest)
           \<and> (\<forall>pd. genericExtractor S html = Returned (Some pd)
                  \<longrightarrow> extractByVendor S vendor html = (Some pd, [Generic]))
           \<and> (\<forall>pd. genericExtractor S html = Returned None
                    \<and> amazonExtractor S html = Returned (Some pd)
                  \<longrightarrow> extractByVendor S vendor html = (Some pd, [Generic, Amazon]))
           \<and> (\<forall>res. genericExtractor S html = Returned None
                     \<and> amazonExtractor S html = Returned None
                     \<and> walmartExtractor S html = Returned res
                  \<longrightarrow> extractByVendor S vendor html = (res, [Generic, Amazon, Walmart])))
   \<and> (\<forall>vendor \<in> {js ''target'', js ''bestbuy'', js ''generic'', js ''ebay''}.
        vendor \<noteq> js ''amazon'' \<and> vendor \<noteq> js ''walmart'')
   \<and> (\<forall>L u html opts now r.
        u \<noteq> [] \<and> detectVendor u \<noteq> js ''amazon'' \<and> detectVendor u \<noteq> js ''walmart''
        \<and> \<not> isOutOfStock (JStr html) \<and> noGenericMarkers L html
        \<and> Amazon_extract L html = Some r \<and> 1 / 100 \<le> price r \<and> price r \<le> 1000000
        \<longrightarrow> (\<exists>warnings. getPrice (PriceScraper L) (JStr u) html opts now
               = (Returned (Available u (detectVendor u) r now warnings), [Generic, Amazon])))"
proof (intro conjI)
  show "\<forall>S vendor html.
      vendor \<noteq> js ''amazon'' \<and> vendor \<noteq> js ''walmart''
      \<longrightarrow> (\<exists>rest. snd (extractByVendor S vendor html) = Generic # rest)
           \<and> (\<forall>pd. genericExtractor S html = Returned (Some pd)
                  \<longrightarrow> extractByVendor S vendor html = (Some pd, [Generic]))
           \<and> (\<forall>pd. genericExtractor S html = Returned None
                    \<and> amazonExtractor S html = Returned (Some pd)
                  \<longrightarrow> extractByVendor S vendor html = (Some pd, [Generic, Amazon]))
           \<and> (\<forall>res. genericExtractor S html = Returned None
                     \<and> amazonExtractor S html = Returned None
                     \<and> walmartExtractor S html = Returned res
                  \<longrightarrow> extractByVendor S vendor html = (res, [Generic, Amazon, Walmart]))"
    by (intro allI impI conjI; elim conjE) (rule extractByVendor_other; assumption)+
  show "\<forall>vendor \<in> {js ''target'', js ''bestbuy'', js ''generic'', js ''ebay''}.
        vendor \<noteq> js ''amazon'' \<and> vendor \<noteq> js ''walmart''"
    by simp
  show "\<forall>L u html opts now r.
        u \<noteq> [] \<and> detectVendor u \<noteq> js ''amazon'' \<and> detectVendor u \<noteq> js ''walmart''
        \<and> \<not> isOutOfStock (JStr html) \<and> noGenericMarkers L html
        \<and> Amazon_extract L html = Some r \<and> 1 / 100 \<le> price r \<and> price r \<le> 1000000
        \<longrightarrow> (\<exists>warnings. getPrice (PriceScraper L) (JStr u) html opts now
               = (Returned (Available u (detectVendor u) r now warnings), [Generic, Amazon]))"
    by (intro allI impI, elim conjE) (rule getPrice_fallback_to_amazon)
qed

lemmas amazonJsonPage_eval =
  amazonJsonPage_def amazonJsonPageLib_def amazonJsonScript_def amazonJsonBlock_def quoted_def

lemmas amazon_eval =
  Amazon_extract_def Amazon_extractFromJsonData_def Amazon_extractFromPriceToPay_def
  Amazon_extractFromOffers_def Amazon_extractFromCorePrice_def Amazon_jsonPatterns_def
  Amazon_priceToPaySelectors_def Amazon_offerSelectors_def offscreenOrText_def
  priceStringOrNull_def nullish_def

theorem other_vendor_fallback_chain_witness:
  "Generic_extract amazonJsonPageLib amazonJsonPage = None
   \<and> Amazon_extract amazonJsonPageLib amazonJsonPage = Some amazonJsonRecord
   \<and> (\<exists>warnings. getPrice (PriceScraper amazonJsonPageLib)
                     (JStr (js ''https://www.target.com/p/123'')) amazonJsonPage
                     \<lparr> allowOutOfStock = JUndefined \<rparr> (js ''now'')
                   = (Returned (Available (js ''https://www.target.com/p/123'') (js ''target'')
                                  amazonJsonRecord (js ''now'') warnings),
                      [Generic, Amazon]))"
proof -
  let ?u = "js ''https://www.target.com/p/123''"
  have v: "detectVendor ?u = js ''target''"
    by (simp add: detectVendor_def toLowerCase_def str_includes_def sublist_Cons_right)
  have g0: "noGenericMarkers amazonJsonPageLib amazonJsonPage"
    by (simp add: noGenericMarkers_def amazonJsonPageLib_def Generic_selectors_def)
  then have g: "Generic_extract amazonJsonPageLib amazonJsonPage = None"
    by (rule Generic_extract_no_markers)
  have a: "Amazon_extract amazonJsonPageLib amazonJsonPage = Some amazonJsonRecord"
    by (simp add: amazonJsonPage_eval amazon_eval parse_eval normalize_eval
        amazonJsonRecord_def)
  have o: "\<not> isOutOfStock (JStr amazonJsonPage)"
    by (simp add: amazonJsonPage_eval isOutOfStock_def outOfStockIndicators_def
        regex_test_i_def canonicalize_def sublist_Cons_right)
  have p: "1 / 100 \<le> price amazonJsonRecord" "price amazonJsonRecord \<le> 1000000"
    by (simp_all add: amazonJsonRecord_def)
  have t: "detectVendor ?u \<noteq> js ''amazon''" "detectVendor ?u \<noteq> js ''walmart''"
    by (simp_all only: v) simp_all
  have u: "?u \<noteq> []" by simp
  from other_vendor_fallback_chain [THEN conjunct2, THEN conjunct2, rule_format,
      of ?u amazonJsonPage amazonJsonPageLib amazonJsonRecord
         "\<lparr> allowOutOfStock = JUndefined \<rparr>" "js ''now''"]
    u t o g0 a p
  have "\<exists>warnings. getPrice (PriceScraper amazonJsonPageLib) (JStr ?u) amazonJsonPage
                     \<lparr> allowOutOfStock = JUndefined \<rparr> (js ''now'')
                   = (Returned (Available ?u (detectVendor ?u) amazonJsonRecord (js ''now'')
                                  warnings), [Generic, Amazon])"
    by blast
  with g a show ?thesis by (simp only: v)
qed

section \<open>Properties of the extractors\<close>

lemma normalizePrice_no_sale:
  assumes "cand_salePrice c = JUndefined" "normalizePrice (Some c) = Some r"
  shows "\<not> isOnSale r \<and> salePrice r = None"
  using assms by (auto simp: normalizePrice_def split: option.splits if_splits)

lemma first_some_SomeD: "first_some f xs = Some r \<Longrightarrow> \<exists>x\<in>set xs. f x = Some r"
  by (induction xs) (auto split: option.splits)

lemma first_found_SomeD:
  "first_found f xs = Returned (Some r) \<Longrightarrow> \<exists>x\<in>set xs. f x = Returned (Some r)"
  by (induction xs) (auto split: option.splits outcome.splits)

lemma jsonLdPriceHere_no_sale: "jsonLdPriceHere obj = Some c \<Longrightarrow> cand_salePrice c = JUndefined"
  by (auto simp: jsonLdPriceHere_def Let_def split: if_splits)

lemma findPriceInJsonLd_no_sale:
  "findPriceInJsonLd obj = Some c \<Longrightarrow> cand_salePrice c = JUndefined"
proof (induction obj arbitrary: c rule: findPriceInJsonLd.induct)
  case (1 obj)
  from "1.prems" have t: "\<not> (\<not> truthy obj \<or> \<not> typeof_object obj)"
    by (subst (asm) findPriceInJsonLd.simps) (auto split: if_splits)
  show ?case
  proof (cases "jsonLdPriceHere obj")
    case (Some found)
    with "1.prems" t have "found = c" by (subst (asm) findPriceInJsonLd.simps) simp
    with Some show ?thesis by (simp add: jsonLdPriceHere_no_sale)
  next
    case None
    with "1.prems" t have
      "first_some (\<lambda>child. if typeof_object child then findPriceInJsonLd child else None)
         (children obj) = Some c"
      by (subst (asm) findPriceInJsonLd.simps) simp
    then obtain child where "child \<in> set (children obj)" "typeof_object child"
      "findPriceInJsonLd child = Some c"
      by (auto dest!: first_some_SomeD split: if_splits)
    with "1.IH" [OF t None] show ?thesis by blast
  qed
qed

lemma statePriceHere_no_sale:
  "statePriceHere obj = Some (Returned (Some r)) \<Longrightarrow> \<not> isOnSale r \<and> salePrice r = None"
  by (auto simp: statePriceHere_def Let_def split: if_splits outcome.splits
      dest!: normalizePrice_no_sale [rotated])

lemma statePricingHere_no_sale:
  "statePricingHere obj = Some (Returned (Some r)) \<Longrightarrow> \<not> isOnSale r \<and> salePrice r = None"
  by (auto simp: statePricingHere_def Let_def split: if_splits outcome.splits
      dest!: normalizePrice_no_sale [rotated])

lemma findPriceInState_no_sale:
  "findPriceInState obj = Returned (Some r) \<Longrightarrow> \<not> isOnSale r \<and> salePrice r = None"
proof (induction obj arbitrary: r rule: findPriceInState.induct)
  case (1 obj)
  from "1.prems" have t: "\<not> (\<not> truthy obj \<or> \<not> typeof_object obj)"
    by (subst (asm) findPriceInState.simps) (auto split: if_splits)
  show ?case
  proof (cases "statePriceHere obj")
    case (Some res)
    with "1.prems" t have "res = Returned (Some r)"
      by (subst (asm) findPriceInState.simps) simp
    with Some show ?thesis by (simp add: statePriceHere_no_sale)
  next
    case None
    note n1 = this
    show ?thesis
    proof (cases "statePricingHere obj")
      case (Some res)
      with "1.prems" t n1 have "res = Returned (Some r)"
        by (subst (asm) findPriceInState.simps) simp
      with Some show ?thesis by (simp add: statePricingHere_no_sale)
    next
      case None
      with "1.prems" t n1 have
        "first_found (\<lambda>child. if typeof_object child then findPriceInState child
                               else Returned None) (children obj) = Returned (Some r)"
        by (subst (asm) findPriceInState.simps) simp
      then obtain child where "child \<in> set (children obj)" "typeof_object child"
        "findPriceInState child = Returned (Some r)"
        by (auto dest!: first_found_SomeD split: if_splits)
      with "1.IH" [OF t n1 None] show ?thesis by blast
    qed
  qed
qed

lemma normalizePrice_literal_no_sale:
  assumes "normalizePrice (Some \<lparr> cand_price = a, cand_salePrice = JUndefined,
                                   cand_listPrice = b, cand_currency = d \<rparr>) = Some r"
  shows "\<not> isOnSale r \<and> salePrice r = None"
  using normalizePrice_no_sale [OF _ assms] by simp

lemma Generic_jsonLdScripts_no_sale:
  "Generic_jsonLdScripts L scripts = Some (Some r) \<Longrightarrow> \<not> isOnSale r \<and> salePrice r = None"
proof (induction scripts)
  case Nil
  then show ?case by simp
next
  case (Cons script rest)
  then show ?case
    by (auto split: option.splits if_splits
        dest: findPriceInJsonLd_no_sale normalizePrice_no_sale)
qed

lemma Generic_commonSelectors_no_sale:
  "Generic_commonSelectors L html sels = Some (Some r) \<Longrightarrow> \<not> isOnSale r \<and> salePrice r = None"
proof (induction sels)
  case Nil
  then show ?case by simp
next
  case (Cons sel rest)
  then show ?case
    by (auto simp: Let_def split: option.splits if_splits list.splits
        dest!: normalizePrice_literal_no_sale)
qed

lemma Generic_extract_no_sale:
  assumes "Generic_extract L html = Some r"
  shows "\<not> isOnSale r \<and> salePrice r = None"
proof -
  from assms consider "Generic_extractFromJsonLd L html = Some r"
    | "Generic_extractFromOpenGraph L html = Some r"
    | "Generic_extractFromCommonSelectors L html = Some r"
    by (auto simp: Generic_extract_def split: if_splits option.splits)
  then show ?thesis
  proof cases
    case 1
    then show ?thesis
      by (auto simp: Generic_extractFromJsonLd_def split: option.splits
          dest: Generic_jsonLdScripts_no_sale)
  next
    case 2
    then show ?thesis
      by (auto simp: Generic_extractFromOpenGraph_def Let_def split: if_splits
          dest!: normalizePrice_literal_no_sale)
  next
    case 3
    then show ?thesis
      by (auto simp: Generic_extractFromCommonSelectors_def split: option.splits
          dest: Generic_commonSelectors_no_sale)
  qed
qed

lemma Walmart_statePatterns_no_sale:
  "Walmart_statePatterns L t ps = Some r \<Longrightarrow> \<not> isOnSale r \<and> salePrice r = None"
proof (induction ps)
  case Nil
  then show ?case by simp
next
  case (Cons p rest)
  then show ?case
    by (auto split: option.splits outcome.splits dest: findPriceInState_no_sale)
qed

lemma Walmart_stateScripts_no_sale:
  "Walmart_stateScripts L scripts = Some r \<Longrightarrow> \<not> isOnSale r \<and> salePrice r = None"
proof (induction scripts)
  case Nil
  then show ?case by simp
next
  case (Cons script rest)
  then show ?case
    by (auto split: option.splits if_splits dest: Walmart_statePatterns_no_sale)
qed

lemma Walmart_priceDisplay_no_sale:
  "Walmart_priceDisplay L html sels = Some (Some r) \<Longrightarrow> \<not> isOnSale r \<and> salePrice r = None"
proof (induction sels)
  case Nil
  then show ?case by simp
next
  case (Cons sel rest)
  then show ?case
    by (auto simp: Let_def split: option.splits if_splits list.splits
        dest!: normalizePrice_literal_no_sale)
qed

lemma Walmart_extract_no_sale:
  assumes "Walmart_extract L html = Some r"
  shows "\<not> isOnSale r \<and> salePrice r = None"
proof -
  from assms consider "Walmart_extractFromJsonState L html = Some r"
    | "Walmart_extractFromPriceDisplay L html = Some r"
    | "Walmart_extractFromMetaTags L html = Some r"
    by (auto simp: Walmart_extract_def split: if_splits option.splits)
  then show ?thesis
  proof cases
    case 1
    then show ?thesis
      by (auto simp: Walmart_extractFromJsonState_def split: option.splits
          dest: Walmart_statePatterns_no_sale Walmart_stateScripts_no_sale)
  next
    case 2
    then show ?thesis
      by (auto simp: Walmart_extractFromPriceDisplay_def split: option.splits
          dest: Walmart_priceDisplay_no_sale)
  next
    case 3
    then show ?thesis
      by (auto simp: Walmart_extractFromMetaTags_def Let_def split: if_splits
          dest!: normalizePrice_literal_no_sale)
  qed
qed

lemma Amazon_jsonData_no_sale:
  "Amazon_jsonData L html ps = Some (Some r) \<Longrightarrow> \<not> isOnSale r \<and> salePrice r = None"
proof (induction ps)
  case Nil
  then show ?case by simp
next
  case (Cons p rest)
  then show ?case
    by (auto simp: Let_def split: option.splits if_splits
        dest!: normalizePrice_literal_no_sale)
qed

lemma Amazon_jsonLdScripts_no_sale:
  "Amazon_jsonLdScripts L scripts = Some (Some r) \<Longrightarrow> \<not> isOnSale r \<and> salePrice r = None"
proof (induction scripts)
  case Nil
  then show ?case by simp
next
  case (Cons script rest)
  then show ?case
    by (auto simp: Let_def split: option.splits if_splits outcome.splits
        dest!: normalizePrice_literal_no_sale)
qed

lemma Amazon_priceToPay_no_sale:
  "Amazon_priceToPay L html sels = Some (Some r) \<Longrightarrow> \<not> isOnSale r \<and> salePrice r = None"
proof (induction sels)
  case Nil
  then show ?case by simp
next
  case (Cons sel rest)
  then show ?case
    by (auto split: option.splits if_splits list.splits dest!: normalizePrice_literal_no_sale)
qed

lemma Amazon_offerElements_no_sale:
  "Amazon_offerElements es = Some (Some r) \<Longrightarrow> \<not> isOnSale r \<and> salePrice r = None"
proof (induction es)
  case Nil
  then show ?case by simp
next
  case (Cons element rest)
  then show ?case
    by (auto simp: Let_def split: option.splits if_splits
        dest!: normalizePrice_literal_no_sale)
qed

lemma Amazon_offers_no_sale:
  "Amazon_offers L html sels = Some (Some r) \<Longrightarrow> \<not> isOnSale r \<and> salePrice r = None"
proof (induction sels)
  case Nil
  then show ?case by simp
next
  case (Cons sel rest)
  then show ?case
    by (auto split: option.splits dest: Amazon_offerElements_no_sale)
qed

lemma Amazon_extract_no_sale:
  assumes "Amazon_extract L html = Some r"
  shows "\<not> isOnSale r \<and> salePrice r = None"
proof -
  from assms consider "Amazon_extractFromJsonData L html = Some r"
    | "Amazon_extractFromPriceToPay L html = Some r"
    | "Amazon_extractFromOffers L html = Some r"
    | "Amazon_extractFromCorePrice L html = Some r"
    by (auto simp: Amazon_extract_def split: if_splits option.splits)
  then show ?thesis
  proof cases
    case 1
    then show ?thesis
      by (auto simp: Amazon_extractFromJsonData_def split: option.splits
          dest: Amazon_jsonData_no_sale Amazon_jsonLdScripts_no_sale)
  next
    case 2
    then show ?thesis
      by (auto simp: Amazon_extractFromPriceToPay_def split: option.splits
          dest: Amazon_priceToPay_no_sale)
  next
    case 3
    then show ?thesis
      by (auto simp: Amazon_extractFromOffers_def split: option.splits
          dest: Amazon_offers_no_sale)
  next
    case 4
    then show ?thesis
      by (auto simp: Amazon_extractFromCorePrice_def Let_def
          split: list.splits option.splits if_splits
          dest!: normalizePrice_literal_no_sale)
  qed
qed

text \<open>
  Claim C5. For every page and whatever cheerio, the regular expression engine and
  \<open>JSON.parse\<close> answer on it, every record that the Amazon, the Walmart or the
  Generic extractor returns has \<open>isOnSale\<close> false and \<open>salePrice\<close> null. The
  reason: \<open>normalizePrice\<close> gives such a record for every candidate without a
  \<open>salePrice\<close>, and no extraction method passes one (the object that
  \<open>findPriceInJsonLd\<close> returns has none either).
\<close>

theorem extractors_never_on_sale:
  "(\<forall>L html r.
      Amazon_extract L html = Some r \<or> Walmart_extract L html = Some r
      \<or> Generic_extract L html = Some r
      \<longrightarrow> \<not> isOnSale r \<and> salePrice r = None)
   \<and> (\<forall>c r. cand_salePrice c = JUndefined \<and> normalizePrice (Some c) = Some r
        \<longrightarrow> \<not> isOnSale r \<and> salePrice r = None)
   \<and> (\<forall>obj c. findPriceInJsonLd obj = Some c \<longrightarrow> cand_salePrice c = JUndefined)"
proof (intro conjI)
  show "\<forall>L html r.
      Amazon_extract L html = Some r \<or> Walmart_extract L html = Some r
      \<or> Generic_extract L html = Some r
      \<longrightarrow> \<not> isOnSale r \<and> salePrice r = None"
    using Amazon_extract_no_sale Walmart_extract_no_sale Generic_extract_no_sale by blast
  show "\<forall>c r. cand_salePrice c = JUndefined \<and> normalizePrice (Some c) = Some r
        \<longrightarrow> \<not> isOnSale r \<and> salePrice r = None"
    using normalizePrice_no_sale by blast
  show "\<forall>obj c. findPriceInJsonLd obj = Some c \<longrightarrow> cand_salePrice c = JUndefined"
    using findPriceInJsonLd_no_sale by blast
qed

theorem extractors_never_on_sale_witness:
  "Amazon_extract amazonOfferPageLib amazonOfferPage
     = Some \<lparr> price = 2999 / 100, originalPrice = Some (3999 / 100), salePrice = None,
               currency = JStr (js ''USD''), isOnSale = False \<rparr>
   \<and> \<not> isOnSale \<lparr> price = 2999 / 100, originalPrice = Some (3999 / 100), salePrice = None,
                    currency = JStr (js ''USD''), isOnSale = False \<rparr>"
proof -
  let ?r = "\<lparr> price = 2999 / 100, originalPrice = Some (3999 / 100), salePrice = None,
               currency = JStr (js ''USD''), isOnSale = False \<rparr>"
  have a: "Amazon_extract amazonOfferPageLib amazonOfferPage = Some ?r"
    by (simp add: amazonOfferPage_def amazonOfferPageLib_def offerElem_def struckElem_def
        amazon_eval parse_eval normalize_eval toString_eval fracDigits_numeral)
  with extractors_never_on_sale [THEN conjunct1, rule_format,
      of amazonOfferPageLib amazonOfferPage ?r]
  have "\<not> isOnSale ?r" by blast
  with a show ?thesis by blast
qed

section \<open>Properties of the recursive searches\<close>













lemmas search_eval =
  findPriceInJsonLd.simps findPriceInState.simps jsonLdPriceHere_def statePriceHere_def
  statePricingHere_def opt_prop_def nullish_def toStringOrNull_def



text \<open>A node whose own price is null makes \<open>findPriceInState\<close> throw, and the
  exception leaves the loop of the parent before the later properties are visited.\<close>

lemma findPriceInState_null_price_throws:
  "findPriceInState (JObj [(js ''a'', JObj [(js ''price'', JNull)]),
                           (js ''b'', JObj [(js ''price'', JStr (js ''5''))])])
   = Threw (js ''TypeError'')"
  by (simp add: search_eval)

text \<open>A candidate with a list price that does not parse reaches \<open>normalizePrice\<close>
  from the Walmart state search: the record found has \<open>originalPrice\<close> null.\<close>

lemma findPriceInState_unparseable_wasPrice:
  "findPriceInState (JObj [(js ''price'', JNum 10), (js ''wasPrice'', JStr (js ''N/A''))])
   = Returned (Some \<lparr> price = 10, originalPrice = None, salePrice = None,
                         currency = JStr (js ''USD''), isOnSale = False \<rparr>)"
  by (simp add: search_eval parse_eval normalize_eval toString_eval)

end
